theory Spec2Isabelle
  imports Main "HOL-Library.Word"
begin

unbundle bit_operations_syntax

section \<open>JavaScript values used by the daemon\<close>

text \<open>
  A JavaScript string is a sequence of UTF-16 code units; \<open>charCodeAt\<close> reads one of
  them as a number in \<open>[0, 65535]\<close>.  String literals of the source are written with
  \<open>js\<close>.
\<close>

type_synonym jsstring = "16 word list"

definition js :: "string \<Rightarrow> jsstring" where
  "js s = map of_char s"

definition charCodeAt :: "jsstring \<Rightarrow> nat \<Rightarrow> int" where
  "charCodeAt s i = uint (s ! i)"

text \<open>
  \<open>x | 0\<close> is the ToInt32 conversion: reduce modulo \<open>2^32\<close> and read the result as
  two's complement.  \<open>x << n\<close> converts its left operand the same way, shifts the 32
  bits and reads them as two's complement again.
\<close>

definition toInt32 :: "int \<Rightarrow> int" where
  "toInt32 x = sint (word_of_int x :: 32 word)"

definition js_shl :: "int \<Rightarrow> nat \<Rightarrow> int" where
  "js_shl x n = sint (push_bit n (word_of_int x :: 32 word))"

section \<open>Address resolver: \<open>getPortForSession\<close>\<close>

text \<open>
  The body of the \<open>for\<close> loop: \<open>hash = (hash << 5) - hash + session.charCodeAt(i);
  hash |= 0\<close>.  The subtraction and the addition are on JavaScript numbers, which are
  exact here (all operands are below \<open>2^33\<close> in magnitude).
\<close>

definition hash_step :: "int \<Rightarrow> int \<Rightarrow> int" where
  "hash_step hash c = toInt32 (js_shl hash 5 - hash + c)"

function getPortForSession_loop :: "jsstring \<Rightarrow> nat \<Rightarrow> int \<Rightarrow> int" where
  "getPortForSession_loop session i hash =
     (if i < length session
      then getPortForSession_loop session (i + 1) (hash_step hash (charCodeAt session i))
      else hash)"
  by pat_completeness auto
termination
  by (relation "measure (\<lambda>(session, i, hash). length session - i)") auto

declare getPortForSession_loop.simps [simp del]

definition getPortForSession :: "jsstring \<Rightarrow> int" where
  "getPortForSession session =
     49152 + \<bar>getPortForSession_loop session 0 0\<bar> mod 16383"

text \<open>
  The hash as the specification words it: fold \<open>hash = hash * 31 + charCode\<close> over the
  characters, wrapping to a signed 32-bit integer after every step.
\<close>

definition spec_hash :: "jsstring \<Rightarrow> int" where
  "spec_hash session = foldl (\<lambda>hash c. toInt32 (hash * 31 + uint c)) 0 session"

section \<open>Strings, numbers and paths\<close>

definition newline :: "16 word" where
  "newline = 10"

definition comma :: "16 word" where
  "comma = 44"

text \<open>
  The code units that \<open>String.prototype.trim\<close> and \<open>parseInt\<close> strip: the
  WhiteSpace and LineTerminator code points of ECMAScript.
\<close>

definition is_js_whitespace :: "16 word \<Rightarrow> bool" where
  "is_js_whitespace c =
     (c = 9 \<or> c = 10 \<or> c = 11 \<or> c = 12 \<or> c = 13 \<or> c = 32 \<or> c = 160 \<or> c = 5760
      \<or> (8192 \<le> c \<and> c \<le> 8202) \<or> c = 8232 \<or> c = 8233 \<or> c = 8239 \<or> c = 8287
      \<or> c = 12288 \<or> c = 65279)"

definition trim :: "jsstring \<Rightarrow> jsstring" where
  "trim s = rev (dropWhile is_js_whitespace (rev (dropWhile is_js_whitespace s)))"

text \<open>\<open>s.split(',')\<close>: the pieces between separators, empty pieces included.\<close>

fun split_on :: "16 word \<Rightarrow> jsstring \<Rightarrow> jsstring list" where
  "split_on sep [] = [[]]"
| "split_on sep (x # xs) =
     (if x = sep then [] # split_on sep xs
      else (case split_on sep xs of
              [] \<Rightarrow> [[x]]
            | piece # pieces \<Rightarrow> (x # piece) # pieces))"

text \<open>
  \<open>buffer.indexOf('\n')\<close> where the buffer is known to contain the character (the
  \<open>-1\<close> of an absent character is never produced under the loop's guard).
\<close>

definition indexOf :: "jsstring \<Rightarrow> 16 word \<Rightarrow> nat" where
  "indexOf s c = length (takeWhile (\<lambda>x. x \<noteq> c) s)"

text \<open>
  \<open>parseInt(s, 10)\<close>: leading white space is skipped, an optional sign is read, then
  the longest run of decimal digits; \<open>None\<close> is \<open>NaN\<close>.  (The rounding of integers
  beyond \<open>2^53\<close> is not modelled.)
\<close>

definition is_digit :: "16 word \<Rightarrow> bool" where
  "is_digit c = (48 \<le> c \<and> c \<le> 57)"

definition digits_value :: "jsstring \<Rightarrow> nat" where
  "digits_value ds = foldl (\<lambda>n c. 10 * n + (unat c - 48)) 0 ds"

definition parseInt10 :: "jsstring \<Rightarrow> int option" where
  "parseInt10 s =
     (let t = dropWhile is_js_whitespace s;
          neg = (case t of [] \<Rightarrow> False | c # r \<Rightarrow> c = 45);
          r = (case t of [] \<Rightarrow> [] | c # r \<Rightarrow> if c = 45 \<or> c = 43 then r else t);
          ds = takeWhile is_digit r
      in if ds = [] then None
         else Some (if neg then - int (digits_value ds) else int (digits_value ds)))"

text \<open>\<open>n.toString()\<close> of an integer: its decimal digits, with a minus sign if negative.\<close>

function digits_of :: "nat \<Rightarrow> jsstring" where
  "digits_of n =
     (if n < 10 then [48 + of_nat n]
      else digits_of (n div 10) @ [48 + of_nat (n mod 10)])"
  by pat_completeness auto
termination
  by (relation "measure (\<lambda>n. n)") auto

declare digits_of.simps [simp del]

definition toString_int :: "int \<Rightarrow> jsstring" where
  "toString_int i = (if i < 0 then 45 # digits_of (nat (- i)) else digits_of (nat i))"

text \<open>
  What the daemon reads from its platform: \<open>process.platform\<close>, \<open>os.tmpdir()\<close>, the
  module variable \<open>currentSession\<close>, \<open>process.env\<close>, \<open>process.pid\<close>, whether
  \<open>process.kill(pid, 0)\<close> returns (rather than throws) for a pid, whether
  \<open>fs.unlinkSync\<close> throws for a path, and the message of the error that
  \<open>fs.writeFileSync\<close> throws for a path (\<open>None\<close> when it writes the file).
\<close>

record platform =
  isWindows :: bool
  tmpdir :: jsstring
  currentSession :: jsstring
  env :: "jsstring \<Rightarrow> jsstring option"
  pid :: int
  kill0 :: "int \<Rightarrow> bool"
  unlink_refused :: "jsstring \<Rightarrow> bool"
  write_error :: "jsstring \<Rightarrow> jsstring option"

text \<open>\<open>process.env.AGENT_BROWSER_SESSION || 'default'\<close>: unset and empty give the default.\<close>

definition initial_session :: "(jsstring \<Rightarrow> jsstring option) \<Rightarrow> jsstring" where
  "initial_session e =
     (case e (js ''AGENT_BROWSER_SESSION'') of
        None \<Rightarrow> js ''default''
      | Some v \<Rightarrow> if v = [] then js ''default'' else v)"

text \<open>
  \<open>path.join(os.tmpdir(), name)\<close>: the two segments joined by the platform's
  separator.  (The normalisation of \<open>.\<close> and \<open>..\<close> segments is not modelled.)
\<close>

definition path_join :: "platform \<Rightarrow> jsstring \<Rightarrow> jsstring \<Rightarrow> jsstring" where
  "path_join p dir name = dir @ [if isWindows p then 92 else 47] @ name"

definition sess_of :: "platform \<Rightarrow> jsstring option \<Rightarrow> jsstring" where
  "sess_of p session = (case session of None \<Rightarrow> currentSession p | Some s \<Rightarrow> s)"

definition getSocketPath :: "platform \<Rightarrow> jsstring option \<Rightarrow> jsstring" where
  "getSocketPath p session =
     (let sess = sess_of p session in
      if isWindows p then toString_int (getPortForSession sess)
      else path_join p (tmpdir p) (js ''agent-browser-'' @ sess @ js ''.sock''))"

definition getPortFile :: "platform \<Rightarrow> jsstring option \<Rightarrow> jsstring" where
  "getPortFile p session =
     path_join p (tmpdir p) (js ''agent-browser-'' @ sess_of p session @ js ''.port'')"

definition getPidFile :: "platform \<Rightarrow> jsstring option \<Rightarrow> jsstring" where
  "getPidFile p session =
     path_join p (tmpdir p) (js ''agent-browser-'' @ sess_of p session @ js ''.pid'')"

definition getStreamPortFile :: "platform \<Rightarrow> jsstring option \<Rightarrow> jsstring" where
  "getStreamPortFile p session =
     path_join p (tmpdir p) (js ''agent-browser-'' @ sess_of p session @ js ''.stream'')"

datatype endpoint = UnixSocket jsstring | TcpPort int

definition getConnectionInfo :: "platform \<Rightarrow> jsstring option \<Rightarrow> endpoint" where
  "getConnectionInfo p session =
     (let sess = sess_of p session in
      if isWindows p then TcpPort (getPortForSession sess)
      else UnixSocket (path_join p (tmpdir p) (js ''agent-browser-'' @ sess @ js ''.sock'')))"

section \<open>Collaborators, effects and the daemon's state\<close>

text \<open>
  A thrown value: an \<open>Error\<close> with its message, or any other value, kept as what
  \<open>String(err)\<close> gives.  \<open>err_message\<close> is the
  \<open>err instanceof Error ? err.message : String(err)\<close> of the catch block.
\<close>

datatype exn = JsError jsstring | JsThrown jsstring

fun err_message :: "exn \<Rightarrow> jsstring" where
  "err_message (JsError m) = m"
| "err_message (JsThrown v) = v"

record command =
  cmd_id :: jsstring
  action :: jsstring
  cmd_args :: jsstring

text \<open>
  The result of \<open>parseCommand\<close>: \<open>{success: true, command}\<close>, or
  \<open>{success: false, id?, error}\<close>.
\<close>

datatype parse_result = ParseSuccess command | ParseFailure "jsstring option" jsstring

text \<open>
  A \<open>Response\<close> is \<open>{id, success: true, data}\<close> or \<open>{id, success: false, error}\<close>.
\<close>

datatype response = SuccessResponse jsstring jsstring | FailureResponse jsstring jsstring

text \<open>
  Modelled from the spec: \<open>errorResponse\<close> of \<open>protocol.js\<close>, which is not among the
  sources; the codec interface gives it as
  \<open>errorResponse(correlation-id, message) -> response\<close>.
\<close>

definition errorResponse :: "jsstring \<Rightarrow> jsstring \<Rightarrow> response" where
  "errorResponse i message = FailureResponse i message"

record launch_options =
  lo_id :: jsstring
  lo_action :: jsstring
  headless :: bool
  executablePath :: "jsstring option"
  extensions :: "jsstring list option"

record codegen_options =
  cg_path :: "jsstring option"
  codeOnly :: bool
  cwd :: "jsstring option"

text \<open>
  The collaborators whose code is outside the daemon, over an abstract browser state
  \<open>'b\<close>: the codec's \<open>parseCommand\<close>; the driver's \<open>executeCommand\<close>, which returns
  a response or throws; the \<open>BrowserManager\<close> methods, where an \<open>exn option\<close> says
  whether the call threw (or its promise rejected); and the \<open>StreamServer\<close>'s
  \<open>start\<close> and \<open>stop\<close>.
\<close>

record 'b collab =
  parseCommand :: "jsstring \<Rightarrow> parse_result"
  executeCommand :: "command \<Rightarrow> 'b \<Rightarrow> (exn + response) \<times> 'b"
  isLaunched :: "'b \<Rightarrow> bool"
  launch :: "launch_options \<Rightarrow> 'b \<Rightarrow> exn option \<times> 'b"
  isCodegenActive :: "'b \<Rightarrow> bool"
  startCodegen :: "codegen_options \<Rightarrow> 'b \<Rightarrow> exn option \<times> 'b"
  browser_close :: "'b \<Rightarrow> exn option \<times> 'b"
  stream_start :: "int \<Rightarrow> exn option"
  stream_stop :: "exn option"

text \<open>
  What the daemon does to the outside, in the order it does it.  \<open>SocketWrite conn r\<close>
  is \<open>socket.write(serializeResponse(r) + '\n')\<close> on connection \<open>conn\<close>.  A call
  of a collaborator (\<open>Launch\<close>, \<open>StartCodegen\<close>, \<open>Execute\<close>, \<open>BrowserClose\<close>,
  \<open>StreamStart\<close>, \<open>StreamStop\<close>) is recorded when it is made, whether it then
  throws or not; \<open>Unlink\<close> records a file that was removed and \<open>WriteFile\<close> a
  file that was written.  \<open>Listen\<close> is the call of \<open>server.listen\<close>, which binds
  the listener and starts accepting; a failure to bind is reported later, by the
  listener's \<open>error\<close> event.
\<close>

datatype effect =
    Unlink jsstring
  | WriteFile jsstring jsstring
  | StreamStart int
  | StreamStop
  | CreateServer
  | Listen endpoint
  | ServerClose
  | SocketWrite nat response
  | Launch launch_options
  | StartCodegen codegen_options
  | Execute command
  | BrowserClose
  | SetTimeout nat
  | ConsoleError
  | Exit int

text \<open>
  The state of the daemon process: the files of the temporary directory, the
  \<open>BrowserManager\<close>, the \<open>shuttingDown\<close> flag, the module variable
  \<open>streamServer\<close> (\<open>None\<close> is \<open>null\<close>), the \<open>buffer\<close> of every connection, the
  number of pending timers, the exit status once the process has exited, and the
  effects so far.
\<close>

record 'b daemon =
  files :: "jsstring \<Rightarrow> jsstring option"
  browser :: 'b
  shuttingDown :: bool
  streamServer :: "int option"
  buffers :: "nat \<Rightarrow> jsstring"
  timers :: nat
  exited :: "int option"
  effects :: "effect list"

definition emit :: "effect \<Rightarrow> 'b daemon \<Rightarrow> 'b daemon" where
  "emit e st = st\<lparr>effects := effects st @ [e]\<rparr>"

definition existsSync :: "'b daemon \<Rightarrow> jsstring \<Rightarrow> bool" where
  "existsSync st path = (files st path \<noteq> None)"

text \<open>
  \<open>fs.writeFileSync(path, content)\<close>: it writes the file, or throws and writes
  nothing.  The first component is the error thrown, if any.
\<close>

definition writeFileSync ::
  "platform \<Rightarrow> jsstring \<Rightarrow> jsstring \<Rightarrow> 'b daemon \<Rightarrow> exn option \<times> 'b daemon" where
  "writeFileSync p path content st =
     (case write_error p path of
        Some message \<Rightarrow> (Some (JsError message), st)
      | None \<Rightarrow>
          (None, emit (WriteFile path content) (st\<lparr>files := (files st)(path \<mapsto> content)\<rparr>)))"

section \<open>Lock marker and artifact cleanup\<close>

text \<open>
  The body of the \<open>try\<close> of \<open>cleanupSocket\<close>: each file that exists is unlinked, in
  order; an \<open>unlinkSync\<close> that throws ends the block (the \<open>catch\<close> ignores the
  error), with the earlier files already gone.
\<close>

fun unlink_existing :: "platform \<Rightarrow> jsstring list \<Rightarrow> 'b daemon \<Rightarrow> 'b daemon" where
  "unlink_existing p [] st = st"
| "unlink_existing p (f # fs) st =
     (if existsSync st f then
        (if unlink_refused p f then st
         else unlink_existing p fs (emit (Unlink f) (st\<lparr>files := (files st)(f := None)\<rparr>)))
      else unlink_existing p fs st)"

definition cleanupSocket :: "platform \<Rightarrow> jsstring option \<Rightarrow> 'b daemon \<Rightarrow> 'b daemon" where
  "cleanupSocket p session st =
     (let pidFile = getPidFile p session;
          streamPortFile = getStreamPortFile p session
      in unlink_existing p
           [pidFile, streamPortFile,
            if isWindows p then getPortFile p session else getSocketPath p session] st)"

text \<open>
  \<open>isDaemonRunning\<close>: \<open>false\<close> at once when the PID file is absent; otherwise the
  file is parsed and the process probed, and whatever throws in the \<open>try\<close>
  (\<open>process.kill\<close> throws for \<open>NaN\<close> and for a process it cannot signal) leads to
  \<open>cleanupSocket\<close> and \<open>false\<close>.
\<close>

definition isDaemonRunning ::
  "platform \<Rightarrow> jsstring option \<Rightarrow> 'b daemon \<Rightarrow> bool \<times> 'b daemon" where
  "isDaemonRunning p session st =
     (let pidFile = getPidFile p session in
      if \<not> existsSync st pidFile then (False, st)
      else (case files st pidFile of
              None \<Rightarrow> (False, cleanupSocket p session st)
            | Some content \<Rightarrow>
                (case parseInt10 (trim content) of
                   None \<Rightarrow> (False, cleanupSocket p session st)
                 | Some n \<Rightarrow>
                     if kill0 p n then (True, st)
                     else (False, cleanupSocket p session st))))"

section \<open>Process exit and the teardown bodies\<close>

text \<open>
  \<open>process.exit(code)\<close> once \<open>startDaemon\<close> has registered its \<open>exit\<close> handler:
  the handler runs \<open>cleanupSocket()\<close>, then the process is gone.
\<close>

definition process_exit :: "platform \<Rightarrow> int \<Rightarrow> 'b daemon \<Rightarrow> 'b daemon" where
  "process_exit p code st =
     (let st' = cleanupSocket p None st in emit (Exit code) (st'\<lparr>exited := Some code\<rparr>))"

text \<open>
  The handlers of \<open>uncaughtException\<close>, of \<open>unhandledRejection\<close> and of the server's
  \<open>error\<close> event have the same body: \<open>console.error\<close>, \<open>cleanupSocket()\<close>,
  \<open>process.exit(1)\<close>.
\<close>

definition fatal_handler :: "platform \<Rightarrow> 'b daemon \<Rightarrow> 'b daemon" where
  "fatal_handler p st = process_exit p 1 (cleanupSocket p None (emit ConsoleError st))"

text \<open>The callback given to \<open>setTimeout\<close> by the close command.\<close>

definition close_timer :: "platform \<Rightarrow> 'b daemon \<Rightarrow> 'b daemon" where
  "close_timer p st = process_exit p 0 (cleanupSocket p None (emit ServerClose st))"

text \<open>
  \<open>shutdown\<close>, the handler of \<open>SIGINT\<close>, \<open>SIGTERM\<close> and \<open>SIGHUP\<close>.  It is an
  \<open>async\<close> function that nothing awaits: when \<open>streamServer.stop()\<close> or
  \<open>browser.close()\<close> rejects, its promise rejects unobserved and the
  \<open>unhandledRejection\<close> handler runs.
\<close>

definition shutdown :: "platform \<Rightarrow> 'b collab \<Rightarrow> 'b daemon \<Rightarrow> 'b daemon" where
  "shutdown p c st =
     (if shuttingDown st then st
      else
        let st1 = st\<lparr>shuttingDown := True\<rparr>;
            stopped =
              (if streamServer st1 \<noteq> None then
                 (let st1' = emit StreamStop st1 in
                  case stream_stop c of
                    Some e \<Rightarrow> (Some e, st1')
                  | None \<Rightarrow>
                      (None, unlink_existing p [getStreamPortFile p None]
                               (st1'\<lparr>streamServer := None\<rparr>)))
               else (None, st1))
        in case stopped of
             (Some e, st2) \<Rightarrow> fatal_handler p st2
           | (None, st2) \<Rightarrow>
               (case browser_close c (browser st2) of
                  (r, b) \<Rightarrow>
                    let st3 = emit BrowserClose (st2\<lparr>browser := b\<rparr>) in
                    (case r of
                       Some e \<Rightarrow> fatal_handler p st3
                     | None \<Rightarrow>
                         process_exit p 0 (cleanupSocket p None (emit ServerClose st3)))))"

section \<open>Command dispatcher\<close>

text \<open>The options of the automatic launch, read from the environment.\<close>

definition auto_extensions :: "platform \<Rightarrow> jsstring list option" where
  "auto_extensions p =
     (case env p (js ''AGENT_BROWSER_EXTENSIONS'') of
        None \<Rightarrow> None
      | Some v \<Rightarrow>
          if v = [] then None
          else Some (filter (\<lambda>e. e \<noteq> []) (map trim (split_on comma v))))"

definition auto_launch_options :: "platform \<Rightarrow> launch_options" where
  "auto_launch_options p =
     \<lparr>lo_id = js ''auto'', lo_action = js ''launch'',
      headless = (env p (js ''AGENT_BROWSER_HEADED'') \<noteq> Some (js ''1'')),
      executablePath = env p (js ''AGENT_BROWSER_EXECUTABLE_PATH''),
      extensions = auto_extensions p\<rparr>"

definition auto_codegen_options :: "platform \<Rightarrow> codegen_options" where
  "auto_codegen_options p =
     \<lparr>cg_path = env p (js ''AGENT_BROWSER_CODEGEN_OUTPUT''),
      codeOnly = (env p (js ''AGENT_BROWSER_CODEGEN_CODE_ONLY'') = Some (js ''1'')),
      cwd = env p (js ''AGENT_BROWSER_CODEGEN_CWD'')\<rparr>"

text \<open>
  The automatic launch of the dispatcher.  The first component is the value thrown, if
  any; the state is the one reached when it was thrown.
\<close>

definition auto_launch ::
  "platform \<Rightarrow> 'b collab \<Rightarrow> command \<Rightarrow> 'b daemon \<Rightarrow> exn option \<times> 'b daemon" where
  "auto_launch p c cmd st =
     (if \<not> isLaunched c (browser st) \<and> action cmd \<noteq> js ''launch''
         \<and> action cmd \<noteq> js ''close''
      then
        (case launch c (auto_launch_options p) (browser st) of
           (r, b1) \<Rightarrow>
             let st1 = emit (Launch (auto_launch_options p)) (st\<lparr>browser := b1\<rparr>) in
             (case r of
                Some e \<Rightarrow> (Some e, st1)
              | None \<Rightarrow>
                  if env p (js ''AGENT_BROWSER_CODEGEN'') = Some (js ''1'')
                     \<and> \<not> isCodegenActive c b1
                  then
                    (case startCodegen c (auto_codegen_options p) b1 of
                       (r2, b2) \<Rightarrow>
                         (r2, emit (StartCodegen (auto_codegen_options p))
                                (st1\<lparr>browser := b2\<rparr>)))
                  else (None, st1)))
      else (None, st))"

definition socket_write :: "nat \<Rightarrow> response \<Rightarrow> 'b daemon \<Rightarrow> 'b daemon" where
  "socket_write conn r st = emit (SocketWrite conn r) st"

text \<open>The \<open>catch\<close> block of the dispatcher.\<close>

definition catch_block :: "nat \<Rightarrow> exn \<Rightarrow> 'b daemon \<Rightarrow> 'b daemon" where
  "catch_block conn e st = socket_write conn (errorResponse (js ''error'') (err_message e)) st"

text \<open>
  One pass of the loop body for a line that is not blank: the \<open>try\<close> with its
  \<open>catch\<close>.  The Boolean says whether the handler executed \<open>return\<close>.
\<close>

definition handle_line ::
  "platform \<Rightarrow> 'b collab \<Rightarrow> nat \<Rightarrow> jsstring \<Rightarrow> 'b daemon \<Rightarrow> bool \<times> 'b daemon" where
  "handle_line p c conn line st =
     (case parseCommand c line of
        ParseFailure i err \<Rightarrow>
          (False,
           socket_write conn
             (errorResponse (case i of None \<Rightarrow> js ''unknown'' | Some x \<Rightarrow> x) err) st)
      | ParseSuccess cmd \<Rightarrow>
          (case auto_launch p c cmd st of
             (Some e, st1) \<Rightarrow> (False, catch_block conn e st1)
           | (None, st1) \<Rightarrow>
               if action cmd = js ''close'' then
                 (case executeCommand c cmd (browser st1) of
                    (r, b) \<Rightarrow>
                      let st2 = emit (Execute cmd) (st1\<lparr>browser := b\<rparr>) in
                      (case r of
                         Inl e \<Rightarrow> (False, catch_block conn e st2)
                       | Inr resp \<Rightarrow>
                           let st3 = socket_write conn resp st2 in
                           (True,
                            if \<not> shuttingDown st3
                            then emit (SetTimeout 100)
                                   (st3\<lparr>shuttingDown := True, timers := timers st3 + 1\<rparr>)
                            else st3)))
               else
                 (case executeCommand c cmd (browser st1) of
                    (r, b) \<Rightarrow>
                      let st2 = emit (Execute cmd) (st1\<lparr>browser := b\<rparr>) in
                      (case r of
                         Inl e \<Rightarrow> (False, catch_block conn e st2)
                       | Inr resp \<Rightarrow> (False, socket_write conn resp st2)))))"

section \<open>Connection framer\<close>

text \<open>
  The \<open>while (buffer.includes('\n'))\<close> loop of the \<open>data\<close> handler, over the
  connection's \<open>buffer\<close>; \<open>h\<close> is the loop body for a line that is not blank,
  and its Boolean says whether the invocation left the loop there.
\<close>

function drain ::
  "(jsstring \<Rightarrow> 's \<Rightarrow> bool \<times> 's) \<Rightarrow> jsstring \<Rightarrow> 's \<Rightarrow> jsstring \<times> 's" where
  "drain h buffer st =
     (if newline \<in> set buffer then
        (let newlineIdx = indexOf buffer newline;
             line = take newlineIdx buffer;
             buffer' = drop (newlineIdx + 1) buffer
         in if trim line = [] then drain h buffer' st
            else (case h line st of
                    (True, st') \<Rightarrow> (buffer', st')
                  | (False, st') \<Rightarrow> drain h buffer' st'))
      else (buffer, st))"
  by pat_completeness auto
termination
  by (relation "measure (\<lambda>(h, buffer, st). length buffer)")
     (auto dest: length_pos_if_in_set)

declare drain.simps [simp del]

text \<open>
  The \<open>data\<close> handler of connection \<open>conn\<close> when every call it awaits settles
  before the next event is handled, so that the invocation runs to its end: here for
  a chunk after \<open>data.toString()\<close>.  Invocations that are suspended at an
  \<open>await\<close> while other events are handled, and the decoding of the chunks, are
  the subject of the handlers further down.
\<close>

definition on_data ::
  "platform \<Rightarrow> 'b collab \<Rightarrow> nat \<Rightarrow> jsstring \<Rightarrow> 'b daemon \<Rightarrow> 'b daemon" where
  "on_data p c conn chunk st =
     (case drain (handle_line p c conn) (buffers st conn @ chunk) st of
        (buffer', st') \<Rightarrow> st'\<lparr>buffers := (buffers st')(conn := buffer')\<rparr>)"

section \<open>Startup and the event loop\<close>

text \<open>
  \<open>options?.streamPort ?? (process.env.AGENT_BROWSER_STREAM_PORT ? parseInt(..., 10) : 0)\<close>;
  \<open>None\<close> as a result is \<open>NaN\<close>.
\<close>

definition resolve_streamPort :: "platform \<Rightarrow> int option \<Rightarrow> int option" where
  "resolve_streamPort p streamPortOption =
     (case streamPortOption of
        Some n \<Rightarrow> Some n
      | None \<Rightarrow>
          (case env p (js ''AGENT_BROWSER_STREAM_PORT'') of
             None \<Rightarrow> Some 0
           | Some v \<Rightarrow> if v = [] then Some 0 else parseInt10 v))"

definition initial_daemon :: "(jsstring \<Rightarrow> jsstring option) \<Rightarrow> 'b \<Rightarrow> 'b daemon" where
  "initial_daemon fs b =
     \<lparr>files = fs, browser = b, shuttingDown = False, streamServer = None,
      buffers = (\<lambda>conn. []), timers = 0, exited = None, effects = []\<rparr>"

text \<open>
  \<open>startDaemon\<close>, from the files present and a fresh \<open>BrowserManager\<close>, up to
  \<open>server.listen\<close>; the handlers it registers are the cases of \<open>step\<close> below.  The
  first component is the rejection of its promise: \<open>streamServer.start()\<close> rejects,
  or one of the three \<open>fs.writeFileSync\<close> calls, none of which is inside a
  \<open>try\<close>, throws; nothing after the failing call is executed.  The socket file
  that the platform creates when \<open>listen\<close> binds a Unix socket, and removes when
  the listener is closed, is not entered into \<open>files\<close>.
\<close>

definition startDaemon ::
  "platform \<Rightarrow> 'b collab \<Rightarrow> int option \<Rightarrow> (jsstring \<Rightarrow> jsstring option) \<Rightarrow> 'b
   \<Rightarrow> exn option \<times> 'b daemon" where
  "startDaemon p c streamPortOption fs b =
     (let st1 = cleanupSocket p None (initial_daemon fs b);
          started =
            (case resolve_streamPort p streamPortOption of
               None \<Rightarrow> (None, st1)
             | Some streamPort \<Rightarrow>
                 if streamPort > 0 then
                   (let st2 = emit (StreamStart streamPort)
                                (st1\<lparr>streamServer := Some streamPort\<rparr>) in
                    case stream_start c streamPort of
                      Some e \<Rightarrow> (Some e, st2)
                    | None \<Rightarrow>
                        writeFileSync p (getStreamPortFile p None)
                          (toString_int streamPort) st2)
                 else (None, st1))
      in case started of
           (Some e, st2) \<Rightarrow> (Some e, st2)
         | (None, st2) \<Rightarrow>
             let st3 = emit CreateServer st2 in
             (case writeFileSync p (getPidFile p None) (toString_int (pid p)) st3 of
                (Some e, st4) \<Rightarrow> (Some e, st4)
              | (None, st4) \<Rightarrow>
                  if isWindows p then
                    (let port = getPortForSession (currentSession p) in
                     case writeFileSync p (getPortFile p None) (toString_int port) st4 of
                       (Some e, st5) \<Rightarrow> (Some e, st5)
                     | (None, st5) \<Rightarrow> (None, emit (Listen (TcpPort port)) st5))
                  else (None, emit (Listen (UnixSocket (getSocketPath p None))) st4)))"

text \<open>
  The entry point: \<open>startDaemon().catch(...)\<close>.  A rejection is handled before the
  \<open>exit\<close> handler was registered.
\<close>

definition daemon_main ::
  "platform \<Rightarrow> 'b collab \<Rightarrow> (jsstring \<Rightarrow> jsstring option) \<Rightarrow> 'b \<Rightarrow> 'b daemon" where
  "daemon_main p c fs b =
     (case startDaemon p c None fs b of
        (Some e, st) \<Rightarrow>
          (let st' = cleanupSocket p None (emit ConsoleError st)
           in emit (Exit 1) (st'\<lparr>exited := Some 1\<rparr>))
      | (None, st) \<Rightarrow> st)"

text \<open>
  The events the started daemon reacts to: a chunk of text on a connection, the
  timer of the close command, a termination signal, an uncaught exception, an
  unhandled rejection, an error of the listener.  Nothing runs once the process has
  exited, and the timer fires only if one is pending.  Here every handler runs to its
  end, its awaits settled in place, before the next event is handled.
\<close>

datatype input =
    Data nat jsstring
  | Timeout
  | Signal
  | UncaughtException
  | UnhandledRejection
  | ServerError

definition step :: "platform \<Rightarrow> 'b collab \<Rightarrow> 'b daemon \<Rightarrow> input \<Rightarrow> 'b daemon" where
  "step p c st ev =
     (if exited st \<noteq> None then st
      else (case ev of
              Data conn chunk \<Rightarrow> on_data p c conn chunk st
            | Timeout \<Rightarrow>
                if timers st = 0 then st else close_timer p (st\<lparr>timers := timers st - 1\<rparr>)
            | Signal \<Rightarrow> shutdown p c st
            | UncaughtException \<Rightarrow> fatal_handler p st
            | UnhandledRejection \<Rightarrow> fatal_handler p st
            | ServerError \<Rightarrow> fatal_handler p st))"

definition run :: "platform \<Rightarrow> 'b collab \<Rightarrow> 'b daemon \<Rightarrow> input list \<Rightarrow> 'b daemon" where
  "run p c st evs = foldl (step p c) st evs"

section \<open>Handler invocations that interleave\<close>

text \<open>
  \<open>data.toString()\<close> of a \<open>Buffer\<close>: UTF-8 decoding, where every maximal ill-formed
  part of the input gives one U+FFFD and a sequence cut off by the end of the buffer
  gives one U+FFFD.  \<open>utf8_lead\<close> reads a byte at the start of a sequence: what it
  emits, how many continuation bytes are needed, the bits so far, and the range of the
  next byte.
\<close>

definition utf8_lead :: "nat \<Rightarrow> nat list \<times> nat \<times> nat \<times> nat \<times> nat" where
  "utf8_lead v =
     (if v \<le> 127 then ([v], 0, 0, 128, 191)
      else if 194 \<le> v \<and> v \<le> 223 then ([], 1, v - 192, 128, 191)
      else if 224 \<le> v \<and> v \<le> 239 then
        ([], 2, v - 224, if v = 224 then 160 else 128, if v = 237 then 159 else 191)
      else if 240 \<le> v \<and> v \<le> 244 then
        ([], 3, v - 240, if v = 240 then 144 else 128, if v = 244 then 143 else 191)
      else ([65533], 0, 0, 128, 191))"

fun utf8_decode :: "nat \<Rightarrow> nat \<Rightarrow> nat \<Rightarrow> nat \<Rightarrow> 8 word list \<Rightarrow> nat list" where
  "utf8_decode needed cp lower upper [] = (if needed = 0 then [] else [65533])"
| "utf8_decode needed cp lower upper (b # bs) =
     (if needed = 0 then
        (case utf8_lead (unat b) of
           (out, needed', cp', lower', upper') \<Rightarrow> out @ utf8_decode needed' cp' lower' upper' bs)
      else if unat b < lower \<or> upper < unat b then
        (case utf8_lead (unat b) of
           (out, needed', cp', lower', upper') \<Rightarrow>
             65533 # out @ utf8_decode needed' cp' lower' upper' bs)
      else if needed = 1 then (cp * 64 + (unat b - 128)) # utf8_decode 0 0 128 191 bs
      else utf8_decode (needed - 1) (cp * 64 + (unat b - 128)) 128 191 bs)"

text \<open>The UTF-16 code units of a code point.\<close>

definition utf16_units :: "nat \<Rightarrow> jsstring" where
  "utf16_units cp =
     (if cp < 65536 then [of_nat cp]
      else [of_nat (55296 + (cp - 65536) div 1024), of_nat (56320 + (cp - 65536) mod 1024)])"

definition toString_utf8 :: "8 word list \<Rightarrow> jsstring" where
  "toString_utf8 data = concat (map utf16_units (utf8_decode 0 0 128 191 data))"


text \<open>
  The \<open>data\<close> handler is an \<open>async\<close> function: an invocation runs until it
  reaches an \<open>await\<close>, and the event loop handles other events, among them further
  \<open>data\<close> events of the same connection, until what it awaits is settled.  All
  invocations of a connection share its \<open>buffer\<close>.  A suspended invocation waits at
  one of the three \<open>await\<close>s of the handler, for a connection and a command:
  \<open>await browser.launch(...)\<close>, \<open>await executeCommand(...)\<close> of the close branch,
  or the last \<open>await executeCommand(...)\<close>.
\<close>

datatype suspension =
    AtLaunch nat command
  | AtCloseExecute nat command
  | AtExecute nat command


text \<open>
  The daemon with its suspended handler invocations, and the lines that were handed
  to \<open>parseCommand\<close>, with their connections, in order.
\<close>

record 'b handlers =
  proc :: "'b daemon"
  suspended :: "suspension list"
  framed :: "(nat \<times> jsstring) list"

text \<open>
  From the test for the close command to the next \<open>await\<close>: \<open>executeCommand\<close> is
  called and the invocation is suspended on its promise.
\<close>

definition dispatch_command :: "nat \<Rightarrow> command \<Rightarrow> 'b handlers \<Rightarrow> 'b handlers" where
  "dispatch_command conn cmd s =
     s\<lparr>proc := emit (Execute cmd) (proc s),
       suspended := suspended s @
         [if action cmd = js ''close'' then AtCloseExecute conn cmd else AtExecute conn cmd]\<rparr>"

text \<open>
  The loop body for a line that is not blank, up to its first \<open>await\<close>.  The Boolean
  says whether the invocation left the loop (it is suspended); otherwise the line was
  answered without an \<open>await\<close> and the loop goes on.
\<close>

definition start_line ::
  "platform \<Rightarrow> 'b collab \<Rightarrow> nat \<Rightarrow> jsstring \<Rightarrow> 'b handlers \<Rightarrow> bool \<times> 'b handlers" where
  "start_line p c conn line s0 =
     (let s = s0\<lparr>framed := framed s0 @ [(conn, line)]\<rparr> in
      case parseCommand c line of
        ParseFailure i err \<Rightarrow>
          (False,
           s\<lparr>proc := socket_write conn
                (errorResponse (case i of None \<Rightarrow> js ''unknown'' | Some x \<Rightarrow> x) err) (proc s)\<rparr>)
      | ParseSuccess cmd \<Rightarrow>
          if \<not> isLaunched c (browser (proc s)) \<and> action cmd \<noteq> js ''launch''
             \<and> action cmd \<noteq> js ''close''
          then
            (True,
             s\<lparr>proc := emit (Launch (auto_launch_options p)) (proc s),
               suspended := suspended s @ [AtLaunch conn cmd]\<rparr>)
          else (True, dispatch_command conn cmd s))"








section \<open>A sample platform and sample collaborators\<close>

text \<open>
  Concrete instances of the parameters, for evaluating the model: a POSIX platform
  with session \<open>t1\<close>, a codec that knows a few literal lines, and a driver over a
  browser state that only records whether the browser is launched.
\<close>

definition sample_platform :: platform where
  "sample_platform =
     \<lparr>isWindows = False, tmpdir = js ''/tmp'', currentSession = js ''t1'',
      env = (\<lambda>k. None), pid = 4242, kill0 = (\<lambda>n. n = 4242),
      unlink_refused = (\<lambda>f. False), write_error = (\<lambda>f. None)\<rparr>"

definition sample_parse :: "jsstring \<Rightarrow> parse_result" where
  "sample_parse line =
     (if line = js ''close'' then
        ParseSuccess \<lparr>cmd_id = js ''2'', action = js ''close'', cmd_args = []\<rparr>
      else if line = js ''launch'' then
        ParseSuccess \<lparr>cmd_id = js ''1'', action = js ''launch'', cmd_args = []\<rparr>
      else if line = js ''title'' then
        ParseSuccess \<lparr>cmd_id = js ''3'', action = js ''title'', cmd_args = []\<rparr>
      else if line = js ''crash'' then
        ParseSuccess \<lparr>cmd_id = js ''4'', action = js ''crash'', cmd_args = []\<rparr>
      else if line = js ''{id:7'' then ParseFailure (Some (js ''7'')) (js ''bad'')
      else ParseFailure None (js ''bad''))"

definition sample_execute :: "command \<Rightarrow> bool \<Rightarrow> (exn + response) \<times> bool" where
  "sample_execute cmd b =
     (if action cmd = js ''crash'' then (Inl (JsError (js ''boom'')), b)
      else if action cmd = js ''close'' then (Inr (SuccessResponse (cmd_id cmd) []), False)
      else if action cmd = js ''launch'' then (Inr (SuccessResponse (cmd_id cmd) []), True)
      else (Inr (SuccessResponse (cmd_id cmd) []), b))"

definition sample_collab :: "bool collab" where
  "sample_collab =
     \<lparr>parseCommand = sample_parse, executeCommand = sample_execute,
      isLaunched = (\<lambda>b. b), launch = (\<lambda>opts b. (None, True)),
      isCodegenActive = (\<lambda>b. False), startCodegen = (\<lambda>opts b. (None, b)),
      browser_close = (\<lambda>b. (None, False)), stream_start = (\<lambda>n. None),
      stream_stop = None\<rparr>"


section \<open>Observations used by the properties\<close>

text \<open>
  The newline-terminated lines of a buffer, in order, and what follows the last
  newline.
\<close>

definition complete_lines :: "jsstring \<Rightarrow> jsstring list" where
  "complete_lines b = butlast (split_on newline b)"

definition partial_line :: "jsstring \<Rightarrow> jsstring" where
  "partial_line b = last (split_on newline b)"

text \<open>A line that the codec decodes to a command whose action is \<open>close\<close>.\<close>

definition is_close_line :: "'b collab \<Rightarrow> jsstring \<Rightarrow> bool" where
  "is_close_line c line =
     (case parseCommand c line of
        ParseSuccess cmd \<Rightarrow> action cmd = js ''close''
      | ParseFailure i err \<Rightarrow> False)"

text \<open>
  The artifact files of a session, in the order \<open>cleanupSocket\<close> visits them, and the
  files that a pass of unlinking really removes.
\<close>

definition artifacts :: "platform \<Rightarrow> jsstring option \<Rightarrow> jsstring list" where
  "artifacts p session =
     [getPidFile p session, getStreamPortFile p session,
      if isWindows p then getPortFile p session else getSocketPath p session]"

fun unlinked ::
  "platform \<Rightarrow> jsstring list \<Rightarrow> (jsstring \<Rightarrow> jsstring option) \<Rightarrow> jsstring list" where
  "unlinked p [] fs = []"
| "unlinked p (f # rest) fs =
     (if fs f \<noteq> None then
        (if unlink_refused p f then [] else f # unlinked p rest (fs(f := None)))
      else unlinked p rest fs)"

fun is_SocketWrite :: "effect \<Rightarrow> bool" where
  "is_SocketWrite (SocketWrite conn r) = True"
| "is_SocketWrite e = False"

fun is_Launch :: "effect \<Rightarrow> bool" where
  "is_Launch (Launch opts) = True"
| "is_Launch e = False"



fun is_Listen :: "effect \<Rightarrow> bool" where
  "is_Listen (Listen ep) = True"
| "is_Listen e = False"


text \<open>
  \<open>Number.isSafeInteger\<close>: the integers that a JavaScript number holds exactly and
  prints as their decimal digits.
\<close>

definition is_safe_integer :: "int \<Rightarrow> bool" where
  "is_safe_integer n = (\<bar>n\<bar> \<le> 9007199254740991)"

text \<open>Some occurrence of \<open>a\<close> comes before some occurrence of \<open>b\<close>.\<close>

fun occurs_before :: "'a \<Rightarrow> 'a \<Rightarrow> 'a list \<Rightarrow> bool" where
  "occurs_before a b [] = False"
| "occurs_before a b (x # xs) = ((x = a \<and> b \<in> set xs) \<or> occurs_before a b xs)"














section \<open>Properties of the address resolver\<close>

lemma hash_step_mult31: "hash_step h c = toInt32 (h * 31 + c)"
proof -
  have "(word_of_int (sint (push_bit 5 (word_of_int h :: 32 word)) - h + c) :: 32 word)
        = push_bit 5 (word_of_int h) - word_of_int h + word_of_int c"
    by simp
  also have "\<dots> = word_of_int h * 31 + word_of_int c"
    by (simp add: push_bit_eq_mult)
  also have "\<dots> = word_of_int (h * 31 + c)"
    by simp
  finally have "(word_of_int (js_shl h 5 - h + c) :: 32 word) = word_of_int (h * 31 + c)"
    unfolding js_shl_def .
  then show ?thesis
    unfolding hash_step_def toInt32_def by (rule arg_cong)
qed

lemma getPortForSession_loop_foldl:
  "getPortForSession_loop s i h =
     foldl (\<lambda>hash c. toInt32 (hash * 31 + uint c)) h (drop i s)"
proof (induction s i h rule: getPortForSession_loop.induct)
  case (1 session i hash)
  show ?case
  proof (cases "i < length session")
    case True
    then have d: "drop i session = session ! i # drop (Suc i) session"
      by (simp add: Cons_nth_drop_Suc)
    have "getPortForSession_loop session i hash =
          getPortForSession_loop session (i + 1) (hash_step hash (charCodeAt session i))"
      using True by (subst getPortForSession_loop.simps) (simp only: if_True)
    also have "\<dots> = foldl (\<lambda>hash c. toInt32 (hash * 31 + uint c))
                 (hash_step hash (charCodeAt session i)) (drop (i + 1) session)"
      using True by (rule "1.IH")
    also have "\<dots> = foldl (\<lambda>hash c. toInt32 (hash * 31 + uint c)) hash (drop i session)"
      unfolding d by (simp only: foldl_Cons hash_step_mult31 charCodeAt_def Suc_eq_plus1)
    finally show ?thesis .
  next
    case False
    then have "getPortForSession_loop session i hash = hash"
      by (subst getPortForSession_loop.simps) (simp only: if_False)
    with False show ?thesis by simp
  qed
qed

text \<open>
  Claim C7.  For every session name the port is \<open>49152\<close> plus the absolute value of the
  wrapped \<open>hash * 31 + charCode\<close> fold taken modulo \<open>16383\<close>; it depends on the session
  name only, and it lies in \<open>[49152, 65535)\<close>.
\<close>

theorem getPortForSession_range:
  "getPortForSession session = 49152 + \<bar>spec_hash session\<bar> mod 16383
   \<and> 49152 \<le> getPortForSession session
   \<and> getPortForSession session < 65535"
proof -
  have e: "getPortForSession_loop session 0 0 = spec_hash session"
    by (simp add: getPortForSession_loop_foldl spec_hash_def)
  have "0 \<le> \<bar>spec_hash session\<bar> mod 16383"
    by (rule pos_mod_sign) simp
  moreover have "\<bar>spec_hash session\<bar> mod 16383 < 16383"
    by (rule pos_mod_bound) simp
  ultimately show ?thesis
    unfolding getPortForSession_def e by simp
qed

section \<open>Evaluating the model on the sample instances\<close>

lemma js_simps: "js [] = []" "js (x # xs) = of_char x # js xs"
  by (simp_all add: js_def)


lemmas run_defs = on_data_def handle_line_def auto_launch_def catch_block_def socket_write_def
  emit_def errorResponse_def auto_launch_options_def auto_extensions_def auto_codegen_options_def
  indexOf_def trim_def is_js_whitespace_def newline_def Let_def

lemmas path_defs = getPidFile_def getStreamPortFile_def getSocketPath_def getPortFile_def
  path_join_def sess_of_def artifacts_def

lemma sample_platform_simps:
  "isWindows sample_platform = False"
  "tmpdir sample_platform = js ''/tmp''"
  "currentSession sample_platform = js ''t1''"
  "env sample_platform k = None"
  "pid sample_platform = 4242"
  "kill0 sample_platform n = (n = 4242)"
  "unlink_refused sample_platform f = False"
  "write_error sample_platform f = None"
  by (simp_all add: sample_platform_def)

lemma sample_collab_simps:
  "parseCommand sample_collab = sample_parse"
  "executeCommand sample_collab = sample_execute"
  "isLaunched sample_collab b = b"
  "launch sample_collab opts b = (None, True)"
  "isCodegenActive sample_collab b = False"
  "startCodegen sample_collab cg b = (None, b)"
  "browser_close sample_collab b = (None, False)"
  "stream_start sample_collab n = None"
  "stream_stop sample_collab = None"
  by (simp_all add: sample_collab_def)

lemma sample_paths:
  "getPidFile sample_platform None = js ''/tmp/agent-browser-t1.pid''"
  "getStreamPortFile sample_platform None = js ''/tmp/agent-browser-t1.stream''"
  "getSocketPath sample_platform None = js ''/tmp/agent-browser-t1.sock''"
  "artifacts sample_platform None =
     [js ''/tmp/agent-browser-t1.pid'', js ''/tmp/agent-browser-t1.stream'',
      js ''/tmp/agent-browser-t1.sock'']"
  by (simp_all add: path_defs sample_platform_simps js_simps)

lemma parse_samples:
  "parseInt10 (trim (js ''999'')) = Some 999"
  "parseInt10 (trim (js '' 4242'' @ [newline])) = Some 4242"
  "parseInt10 (trim (js ''abc'')) = None"
  by (simp_all add: parseInt10_def trim_def is_js_whitespace_def is_digit_def digits_value_def
        js_simps newline_def Let_def)

text \<open>The port of two session names, one with a positive and one with a negative hash.\<close>

lemma spec_hash_samples:
  "spec_hash (js ''default'') = 1544803905"
  "spec_hash (js ''staging'') = - 1897523141"
  by (simp_all add: spec_hash_def js_simps toInt32_def)

theorem getPortForSession_range_witness:
  "getPortForSession (js ''default'') = 50838
   \<and> getPortForSession (js ''staging'') = 60467"
  using getPortForSession_range[of "js ''default''"] getPortForSession_range[of "js ''staging''"]
  by (simp add: spec_hash_samples)

section \<open>Properties of the connection framer\<close>

lemma split_on_not_Nil: "split_on sep xs \<noteq> []"
  by (induction xs) (auto split: list.splits)

lemma split_on_no_sep: "sep \<notin> set l \<Longrightarrow> split_on sep l = [l]"
  by (induction l) auto

lemma split_on_line:
  "sep \<notin> set l \<Longrightarrow> split_on sep (l @ sep # rest) = l # split_on sep rest"
  by (induction l) (auto split: list.splits)

lemma drain_no_newline: "newline \<notin> set b \<Longrightarrow> drain h b s = (b, s)"
  by (subst drain.simps) simp

lemma indexOf_line: "newline \<notin> set l \<Longrightarrow> indexOf (l @ newline # rest) newline = length l"
  by (induction l) (auto simp: indexOf_def)

lemma take_drop_line:
  "take (length l) (l @ newline # rest) = l"
  "drop (length l + 1) (l @ newline # rest) = rest"
  by simp_all

lemma drain_line:
  assumes "newline \<notin> set l"
  shows "drain h (l @ newline # rest) s =
     (if trim l = [] then drain h rest s
      else (case h l s of (True, s') \<Rightarrow> (rest, s') | (False, s') \<Rightarrow> drain h rest s'))"
proof -
  have i: "indexOf (l @ newline # rest) newline = length l"
    by (rule indexOf_line[OF assms])
  show ?thesis
    by (subst drain.simps) (simp only: i take_drop_line Let_def, simp)
qed

text \<open>
  Where the loop body never returns, the loop is a fold of the body over the complete
  lines that are not blank, and the text after the last newline stays in the buffer.
\<close>

lemma drain_as_fold:
  assumes "\<forall>l\<in>set (complete_lines b). \<forall>s. \<not> fst (h l s)"
  shows "drain h b s =
     (partial_line b,
      foldl (\<lambda>s l. snd (h l s)) s (filter (\<lambda>l. trim l \<noteq> []) (complete_lines b)))"
  using assms
proof (induction b arbitrary: s rule: length_induct)
  case (1 b)
  show ?case
  proof (cases "newline \<in> set b")
    case False
    then show ?thesis
      by (simp add: drain_no_newline complete_lines_def partial_line_def split_on_no_sep)
  next
    case True
    then obtain l rest where b: "b = l @ newline # rest" and l: "newline \<notin> set l"
      by (auto dest: split_list_first)
    have cl: "complete_lines b = l # complete_lines rest"
      and pl: "partial_line b = partial_line rest"
      by (simp_all add: b complete_lines_def partial_line_def split_on_line[OF l] split_on_not_Nil)
    have len: "length rest < length b" by (simp add: b)
    have rest_ok: "\<forall>l\<in>set (complete_lines rest). \<forall>s. \<not> fst (h l s)"
      using "1.prems" by (simp add: cl)
    have IH: "\<And>s. drain h rest s =
       (partial_line rest,
        foldl (\<lambda>s l. snd (h l s)) s (filter (\<lambda>l. trim l \<noteq> []) (complete_lines rest)))"
      using "1.IH" len rest_ok by blast
    have nf: "\<not> fst (h l s)" using "1.prems" by (simp add: cl)
    show ?thesis
    proof (cases "trim l = []")
      case True
      then show ?thesis
        unfolding b drain_line[OF l] by (simp add: IH cl[unfolded b] pl[unfolded b])
    next
      case False
      obtain r s' where hl: "h l s = (r, s')" by (cases "h l s")
      with nf have r: "r = False" by simp
      from False show ?thesis
        unfolding b drain_line[OF l] by (simp add: IH cl[unfolded b] pl[unfolded b] hl r)
    qed
  qed
qed


lemma lines_append:
  "complete_lines (b @ c) = complete_lines b @ complete_lines (partial_line b @ c)
   \<and> partial_line (b @ c) = partial_line (partial_line b @ c)"
proof (induction b rule: length_induct)
  case (1 b)
  show ?case
  proof (cases "newline \<in> set b")
    case False
    then show ?thesis
      by (simp add: complete_lines_def partial_line_def split_on_no_sep)
  next
    case True
    then obtain l rest where b: "b = l @ newline # rest" and l: "newline \<notin> set l"
      by (auto dest: split_list_first)
    have len: "length rest < length b" by (simp add: b)
    have IH: "complete_lines (rest @ c) = complete_lines rest @ complete_lines (partial_line rest @ c)
       \<and> partial_line (rest @ c) = partial_line (partial_line rest @ c)"
      using "1.IH" len by blast
    have e: "b @ c = l @ newline # (rest @ c)" by (simp add: b)
    show ?thesis
      unfolding e unfolding b
      using IH by (simp add: complete_lines_def partial_line_def split_on_line[OF l] split_on_not_Nil)
  qed
qed

lemma auto_launch_buffers:
  "auto_launch p c cmd (st\<lparr>buffers := F\<rparr>) =
     (case auto_launch p c cmd st of (r, st') \<Rightarrow> (r, st'\<lparr>buffers := F\<rparr>))"
  by (auto simp add: auto_launch_def emit_def Let_def split: prod.splits option.splits)

lemma handle_line_buffers:
  "handle_line p c conn l (st\<lparr>buffers := F\<rparr>) =
     (case handle_line p c conn l st of (r, st') \<Rightarrow> (r, st'\<lparr>buffers := F\<rparr>))"
  by (simp add: handle_line_def auto_launch_buffers catch_block_def socket_write_def emit_def Let_def
           split: prod.splits option.splits parse_result.splits sum.splits)

lemma auto_launch_keeps_buffers:
  "auto_launch p c cmd st = (r, st') \<Longrightarrow> buffers st' = buffers st"
  by (auto simp add: auto_launch_def emit_def Let_def split: prod.splits option.splits if_splits)

lemma handle_line_keeps_buffers:
  "buffers (snd (handle_line p c conn l st)) = buffers st"
  by (auto simp add: handle_line_def catch_block_def socket_write_def emit_def Let_def
           dest: auto_launch_keeps_buffers
           split: prod.splits option.splits parse_result.splits sum.splits)

lemma handle_line_returns:
  "fst (handle_line p c conn l st) \<Longrightarrow> is_close_line c l"
  by (auto simp add: handle_line_def is_close_line_def Let_def
           split: prod.splits option.splits parse_result.splits sum.splits if_splits)
lemma foldl_handle_buffers:
  "foldl (\<lambda>s l. snd (handle_line p c conn l s)) (st\<lparr>buffers := F\<rparr>) ls =
     (foldl (\<lambda>s l. snd (handle_line p c conn l s)) st ls)\<lparr>buffers := F\<rparr>"
  by (induction ls arbitrary: st) (simp_all add: handle_line_buffers split: prod.splits)

lemma foldl_handle_keeps_buffers:
  "buffers (foldl (\<lambda>s l. snd (handle_line p c conn l s)) st ls) = buffers st"
  by (induction ls arbitrary: st) (simp_all add: handle_line_keeps_buffers)

lemma on_data_as_fold:
  assumes "\<forall>l\<in>set (complete_lines (buffers st conn @ chunk)). \<not> is_close_line c l"
  shows "on_data p c conn chunk st =
     (foldl (\<lambda>s l. snd (handle_line p c conn l s)) st
        (filter (\<lambda>l. trim l \<noteq> []) (complete_lines (buffers st conn @ chunk))))
     \<lparr>buffers := (buffers st)(conn := partial_line (buffers st conn @ chunk))\<rparr>"
proof -
  have "\<forall>l\<in>set (complete_lines (buffers st conn @ chunk)).
          \<forall>s. \<not> fst (handle_line p c conn l s)"
    using assms handle_line_returns by blast
  then show ?thesis
    by (simp add: on_data_def drain_as_fold foldl_handle_keeps_buffers)
qed

section \<open>Properties of artifact cleanup\<close>

lemma unlinked_subset: "set (unlinked p fs m) \<subseteq> set fs"
  by (induction fs arbitrary: m) auto

lemma unlinked_present: "f \<in> set (unlinked p fs m) \<Longrightarrow> m f \<noteq> None"
proof (induction fs arbitrary: m)
  case Nil
  then show ?case by simp
next
  case (Cons a fs)
  show ?case
  proof (cases "m a \<noteq> None \<and> \<not> unlink_refused p a")
    case True
    with Cons.prems have "f = a \<or> f \<in> set (unlinked p fs (m(a := None)))" by auto
    then show ?thesis
    proof
      assume "f = a"
      with True show ?thesis by simp
    next
      assume "f \<in> set (unlinked p fs (m(a := None)))"
      then have "(m(a := None)) f \<noteq> None" by (rule Cons.IH)
      then show ?thesis by (simp split: if_splits)
    qed
  next
    case False
    with Cons.prems have "f \<in> set (unlinked p fs m)" by (auto split: if_splits)
    then show ?thesis by (rule Cons.IH)
  qed
qed

lemma unlinked_all:
  "\<forall>f\<in>set fs. \<not> unlink_refused p f \<Longrightarrow> f \<in> set fs \<Longrightarrow> m f \<noteq> None
   \<Longrightarrow> f \<in> set (unlinked p fs m)"
proof (induction fs arbitrary: m)
  case Nil
  then show ?case by simp
next
  case (Cons a fs)
  show ?case
  proof (cases "f = a")
    case True
    with Cons.prems show ?thesis by simp
  next
    case False
    with Cons.prems have f: "f \<in> set fs" and r: "\<forall>f\<in>set fs. \<not> unlink_refused p f"
      and a: "\<not> unlink_refused p a"
      by simp_all
    show ?thesis
    proof (cases "m a = None")
      case True
      then show ?thesis using Cons.IH[of m] r f Cons.prems(3) by simp
    next
      case na: False
      have "(m(a := None)) f \<noteq> None" using False Cons.prems(3) by simp
      then have "f \<in> set (unlinked p fs (m(a := None)))"
        using Cons.IH[of "m(a := None)"] r f by blast
      with na a show ?thesis by simp
    qed
  qed
qed

lemma unlinked_again:
  "unlinked p fs (\<lambda>g. if g \<in> set (unlinked p fs m) then None else m g) = []"
proof (induction fs arbitrary: m)
  case Nil
  then show ?case by simp
next
  case (Cons a fs)
  show ?case
  proof (cases "m a = None")
    case True
    then show ?thesis using Cons.IH[of m] by simp
  next
    case present: False
    show ?thesis
    proof (cases "unlink_refused p a")
      case True
      with present show ?thesis by simp
    next
      case False
      have e: "(\<lambda>g. if g \<in> set (a # unlinked p fs (m(a := None))) then None else m g)
             = (\<lambda>g. if g \<in> set (unlinked p fs (m(a := None))) then None else (m(a := None)) g)"
        by (rule ext) simp
      have u: "unlinked p (a # fs) m = a # unlinked p fs (m(a := None))"
        using present False by simp
      have "unlinked p (a # fs)
              (\<lambda>g. if g \<in> set (unlinked p fs (m(a := None))) then None else (m(a := None)) g)
            = unlinked p fs
              (\<lambda>g. if g \<in> set (unlinked p fs (m(a := None))) then None else (m(a := None)) g)"
        by simp
      also have "\<dots> = []" by (rule Cons.IH)
      finally show ?thesis unfolding u e .
    qed
  qed
qed

lemma unlink_existing_shape:
  "\<exists>F E. unlink_existing p fs st = st\<lparr>files := F, effects := E\<rparr>"
proof (induction fs arbitrary: st)
  case Nil
  have "unlink_existing p [] st = st\<lparr>files := files st, effects := effects st\<rparr>"
    by simp
  then show ?case by blast
next
  case (Cons a fs)
  let ?st' = "emit (Unlink a) (st\<lparr>files := (files st)(a := None)\<rparr>)"
  obtain F E where 1: "unlink_existing p fs st = st\<lparr>files := F, effects := E\<rparr>"
    using Cons.IH by blast
  obtain F' E' where "unlink_existing p fs ?st' = ?st'\<lparr>files := F', effects := E'\<rparr>"
    using Cons.IH by blast
  then have 2: "unlink_existing p fs ?st' = st\<lparr>files := F', effects := E'\<rparr>"
    by (simp add: emit_def)
  show ?case
  proof (cases "existsSync st a")
    case True
    show ?thesis
    proof (cases "unlink_refused p a")
      case r: True
      with True have "unlink_existing p (a # fs) st = st" by simp
      then have "unlink_existing p (a # fs) st = st\<lparr>files := files st, effects := effects st\<rparr>"
        by simp
      then show ?thesis by blast
    next
      case False
      with True have "unlink_existing p (a # fs) st = unlink_existing p fs ?st'" by simp
      then have "unlink_existing p (a # fs) st = st\<lparr>files := F', effects := E'\<rparr>"
        by (simp only: 2)
      then show ?thesis by blast
    qed
  next
    case False
    then have "unlink_existing p (a # fs) st = unlink_existing p fs st" by simp
    then have "unlink_existing p (a # fs) st = st\<lparr>files := F, effects := E\<rparr>"
      by (simp only: 1)
    then show ?thesis by blast
  qed
qed

lemma unlink_existing_files:
  "files (unlink_existing p fs st) g =
     (if g \<in> set (unlinked p fs (files st)) then None else files st g)"
  by (induction fs arbitrary: st) (simp_all add: emit_def existsSync_def)

lemma unlink_existing_effects:
  "effects (unlink_existing p fs st) = effects st @ map Unlink (unlinked p fs (files st))"
  by (induction fs arbitrary: st) (simp_all add: emit_def existsSync_def)

lemma unlink_existing_eq:
  "unlink_existing p fs st =
     st\<lparr>files := (\<lambda>g. if g \<in> set (unlinked p fs (files st)) then None else files st g),
        effects := effects st @ map Unlink (unlinked p fs (files st))\<rparr>"
proof -
  obtain F E where s: "unlink_existing p fs st = st\<lparr>files := F, effects := E\<rparr>"
    using unlink_existing_shape by blast
  have "files (st\<lparr>files := F, effects := E\<rparr>) = F"
    and "effects (st\<lparr>files := F, effects := E\<rparr>) = E"
    by simp_all
  then have F: "F = files (unlink_existing p fs st)" and E: "E = effects (unlink_existing p fs st)"
    by (simp_all only: s)
  have F': "F = (\<lambda>g. if g \<in> set (unlinked p fs (files st)) then None else files st g)"
    unfolding F by (rule ext) (rule unlink_existing_files)
  have E': "E = effects st @ map Unlink (unlinked p fs (files st))"
    unfolding E by (rule unlink_existing_effects)
  show ?thesis
    unfolding s unfolding F' E' ..
qed

lemma cleanupSocket_eq:
  "cleanupSocket p session st =
     st\<lparr>files := (\<lambda>g. if g \<in> set (unlinked p (artifacts p session) (files st)) then None
                        else files st g),
        effects := effects st @ map Unlink (unlinked p (artifacts p session) (files st))\<rparr>"
  by (simp add: cleanupSocket_def artifacts_def unlink_existing_eq Let_def)

lemma cleanupSocket_twice:
  "cleanupSocket p session (cleanupSocket p session st) = cleanupSocket p session st"
  by (subst cleanupSocket_eq) (simp add: cleanupSocket_eq[of p session st] unlinked_again)

lemma cleanupSocket_cleared:
  assumes "\<forall>f\<in>set (artifacts p session). \<not> unlink_refused p f"
  shows "files (cleanupSocket p session st) f =
           (if f \<in> set (artifacts p session) then None else files st f)"
proof (cases "f \<in> set (artifacts p session)")
  case True
  show ?thesis
  proof (cases "files st f = None")
    case n: True
    with True show ?thesis by (simp add: cleanupSocket_eq)
  next
    case False
    then have "f \<in> set (unlinked p (artifacts p session) (files st))"
      by (rule unlinked_all[OF assms True])
    with True show ?thesis by (simp add: cleanupSocket_eq)
  qed
next
  case False
  then have "f \<notin> set (unlinked p (artifacts p session) (files st))"
    using unlinked_subset[of p "artifacts p session" "files st"] by blast
  with False show ?thesis by (simp add: cleanupSocket_eq)
qed

lemma process_exit_after_cleanup:
  "process_exit p code (cleanupSocket p None st) =
     (cleanupSocket p None st)\<lparr>exited := Some code,
        effects := effects (cleanupSocket p None st) @ [Exit code]\<rparr>"
  by (simp add: process_exit_def cleanupSocket_twice emit_def Let_def)

section \<open>Properties of the liveness check\<close>

text \<open>
  Claim C4, as amended.  When the PID file is absent, \<open>isDaemonRunning\<close> returns
  \<open>false\<close> and changes nothing.  When the PID file is present and its content does
  not parse to a pid that \<open>process.kill(pid, 0)\<close> accepts, it returns \<open>false\<close>
  after \<open>cleanupSocket\<close>, which unlinks the session's artifacts that exist (all of
  them, and nothing else, when no unlink is refused).  When the probe succeeds, it
  returns \<open>true\<close> and changes nothing.
\<close>

theorem isDaemonRunning_outcomes:
  "(files st (getPidFile p session) = None \<longrightarrow> isDaemonRunning p session st = (False, st))
   \<and> (\<forall>content.
         files st (getPidFile p session) = Some content
         \<and> (\<forall>n. parseInt10 (trim content) = Some n \<longrightarrow> \<not> kill0 p n) \<longrightarrow>
           isDaemonRunning p session st = (False, cleanupSocket p session st)
           \<and> effects (cleanupSocket p session st) =
               effects st @ map Unlink (unlinked p (artifacts p session) (files st))
           \<and> ((\<forall>f\<in>set (artifacts p session). \<not> unlink_refused p f) \<longrightarrow>
                (\<forall>f. files (cleanupSocket p session st) f =
                       (if f \<in> set (artifacts p session) then None else files st f))))
   \<and> (\<forall>content n.
         files st (getPidFile p session) = Some content
         \<and> parseInt10 (trim content) = Some n \<and> kill0 p n \<longrightarrow>
           isDaemonRunning p session st = (True, st))"
proof (intro conjI allI impI)
  assume "files st (getPidFile p session) = None"
  then show "isDaemonRunning p session st = (False, st)"
    by (simp add: isDaemonRunning_def existsSync_def)
next
  fix content
  assume a: "files st (getPidFile p session) = Some content
         \<and> (\<forall>n. parseInt10 (trim content) = Some n \<longrightarrow> \<not> kill0 p n)"
  then show "isDaemonRunning p session st = (False, cleanupSocket p session st)"
    by (auto simp add: isDaemonRunning_def existsSync_def split: option.splits)
  show "effects (cleanupSocket p session st) =
               effects st @ map Unlink (unlinked p (artifacts p session) (files st))"
    by (simp add: cleanupSocket_eq)
  fix f
  assume "\<forall>f\<in>set (artifacts p session). \<not> unlink_refused p f"
  then show "files (cleanupSocket p session st) f =
                       (if f \<in> set (artifacts p session) then None else files st f)"
    by (rule cleanupSocket_cleared)
next
  fix content n
  assume "files st (getPidFile p session) = Some content
         \<and> parseInt10 (trim content) = Some n \<and> kill0 p n"
  then show "isDaemonRunning p session st = (True, st)"
    by (simp add: isDaemonRunning_def existsSync_def)
qed

theorem isDaemonRunning_outcomes_witness:
  "isDaemonRunning sample_platform None (initial_daemon Map.empty False)
     = (False, initial_daemon Map.empty False)
   \<and> fst (isDaemonRunning sample_platform None
         (initial_daemon [js ''/tmp/agent-browser-t1.pid'' \<mapsto> js ''999'',
                          js ''/tmp/agent-browser-t1.sock'' \<mapsto> []] False)) = False
   \<and> effects (snd (isDaemonRunning sample_platform None
         (initial_daemon [js ''/tmp/agent-browser-t1.pid'' \<mapsto> js ''999'',
                          js ''/tmp/agent-browser-t1.sock'' \<mapsto> []] False)))
       = [Unlink (js ''/tmp/agent-browser-t1.pid''), Unlink (js ''/tmp/agent-browser-t1.sock'')]
   \<and> files (snd (isDaemonRunning sample_platform None
         (initial_daemon [js ''/tmp/agent-browser-t1.pid'' \<mapsto> js ''999'',
                          js ''/tmp/agent-browser-t1.sock'' \<mapsto> []] False)))
         (js ''/tmp/agent-browser-t1.sock'') = None
   \<and> files (snd (isDaemonRunning sample_platform None
         (initial_daemon [js ''/tmp/agent-browser-t1.pid'' \<mapsto> js ''999'',
                          js ''/tmp/agent-browser-t1.sock'' \<mapsto> []] False)))
         (js ''/tmp/agent-browser-t1.pid'') = None
   \<and> isDaemonRunning sample_platform None
         (initial_daemon [js ''/tmp/agent-browser-t1.pid'' \<mapsto> js '' 4242'' @ [newline]] False)
     = (True, initial_daemon [js ''/tmp/agent-browser-t1.pid'' \<mapsto> js '' 4242'' @ [newline]] False)"
proof -
  let ?pid = "js ''/tmp/agent-browser-t1.pid''"
  let ?sock = "js ''/tmp/agent-browser-t1.sock''"
  let ?st1 = "initial_daemon Map.empty False :: bool daemon"
  let ?st2 = "initial_daemon [?pid \<mapsto> js ''999'', ?sock \<mapsto> []] False :: bool daemon"
  let ?st3 = "initial_daemon [?pid \<mapsto> js '' 4242'' @ [newline]] False :: bool daemon"
  note T1 = isDaemonRunning_outcomes[where st="?st1" and p=sample_platform and session=None]
  note T2 = isDaemonRunning_outcomes[where st="?st2" and p=sample_platform and session=None]
  note T3 = isDaemonRunning_outcomes[where st="?st3" and p=sample_platform and session=None]
  have 1: "isDaemonRunning sample_platform None ?st1 = (False, ?st1)"
    using T1 by (simp add: initial_daemon_def)
  have f2: "files ?st2 (getPidFile sample_platform None) = Some (js ''999'')"
    by (simp add: sample_paths initial_daemon_def js_simps)
  have k2: "\<forall>n. parseInt10 (trim (js ''999'')) = Some n \<longrightarrow> \<not> kill0 sample_platform n"
    by (simp add: parse_samples sample_platform_simps)
  have nr: "\<forall>f\<in>set (artifacts sample_platform None). \<not> unlink_refused sample_platform f"
    by (simp add: sample_platform_simps)
  have u: "unlinked sample_platform (artifacts sample_platform None) (files ?st2) = [?pid, ?sock]"
    by (simp add: sample_paths initial_daemon_def sample_platform_simps js_simps)
  from T2 f2 k2 nr have 2:
    "isDaemonRunning sample_platform None ?st2 = (False, cleanupSocket sample_platform None ?st2)"
    and e2: "effects (cleanupSocket sample_platform None ?st2) =
        effects ?st2 @ map Unlink (unlinked sample_platform (artifacts sample_platform None) (files ?st2))"
    and c2: "\<And>f. files (cleanupSocket sample_platform None ?st2) f =
        (if f \<in> set (artifacts sample_platform None) then None else files ?st2 f)"
    by blast+
  have e2': "effects (snd (isDaemonRunning sample_platform None ?st2)) = [Unlink ?pid, Unlink ?sock]"
    unfolding 2 snd_conv e2 u by (simp add: initial_daemon_def)
  have c2': "files (snd (isDaemonRunning sample_platform None ?st2)) ?sock = None"
     "files (snd (isDaemonRunning sample_platform None ?st2)) ?pid = None"
    unfolding 2 snd_conv c2 by (simp_all add: sample_paths)
  have f3: "files ?st3 (getPidFile sample_platform None) = Some (js '' 4242'' @ [newline])"
    by (simp add: sample_paths initial_daemon_def)
  have k3: "parseInt10 (trim (js '' 4242'' @ [newline])) = Some 4242 \<and> kill0 sample_platform 4242"
    by (simp add: parse_samples sample_platform_simps)
  from T3 f3 k3 have 3: "isDaemonRunning sample_platform None ?st3 = (True, ?st3)"
    by blast
  from 1 2 e2' c2' 3 show ?thesis by simp
qed

text \<open>
  Claim C4 as stated fails when the PID file is absent: \<open>isDaemonRunning\<close> returns
  \<open>false\<close> at once and a stale socket file of the session stays in place.
\<close>

theorem isDaemonRunning_absent_marker_counterexample:
  "isDaemonRunning sample_platform None
     (initial_daemon [js ''/tmp/agent-browser-t1.sock'' \<mapsto> []] False)
     = (False, initial_daemon [js ''/tmp/agent-browser-t1.sock'' \<mapsto> []] False)
   \<and> getSocketPath sample_platform None = js ''/tmp/agent-browser-t1.sock''
   \<and> files (snd (isDaemonRunning sample_platform None
                   (initial_daemon [js ''/tmp/agent-browser-t1.sock'' \<mapsto> []] False)))
         (getSocketPath sample_platform None) = Some []"
proof -
  let ?st = "initial_daemon [js ''/tmp/agent-browser-t1.sock'' \<mapsto> []] False :: bool daemon"
  have 1: "isDaemonRunning sample_platform None ?st = (False, ?st)"
    by (simp add: isDaemonRunning_def existsSync_def sample_paths initial_daemon_def js_simps)
  have 2: "files ?st (getSocketPath sample_platform None) = Some []"
    by (simp add: sample_paths initial_daemon_def)
  show ?thesis
    unfolding 1 snd_conv using 2 by (simp add: sample_paths)
qed
section \<open>Properties of the command dispatcher\<close>

lemma auto_launch_closed:
  "isLaunched c (browser st) \<or> action cmd = js ''launch'' \<or> action cmd = js ''close''
   \<Longrightarrow> auto_launch p c cmd st = (None, st)"
  by (auto simp add: auto_launch_def)

lemma auto_launch_open:
  assumes "\<not> isLaunched c (browser st)" "action cmd \<noteq> js ''launch''"
    "action cmd \<noteq> js ''close''"
  shows "\<exists>b es. snd (auto_launch p c cmd st) =
            st\<lparr>browser := b, effects := effects st @ Launch (auto_launch_options p) # es\<rparr>
          \<and> (es = [] \<or> es = [StartCodegen (auto_codegen_options p)])"
proof -
  obtain r b1 where l: "launch c (auto_launch_options p) (browser st) = (r, b1)"
    by (cases "launch c (auto_launch_options p) (browser st)")
  obtain r2 b2 where g: "startCodegen c (auto_codegen_options p) b1 = (r2, b2)"
    by (cases "startCodegen c (auto_codegen_options p) b1")
  show ?thesis
  proof (cases "r = None \<and> env p (js ''AGENT_BROWSER_CODEGEN'') = Some (js ''1'')
                 \<and> \<not> isCodegenActive c b1")
    case True
    then have "snd (auto_launch p c cmd st) =
        st\<lparr>browser := b2, effects := effects st @ Launch (auto_launch_options p)
                 # [StartCodegen (auto_codegen_options p)]\<rparr>"
      using assms l g by (simp add: auto_launch_def emit_def Let_def)
    then show ?thesis by blast
  next
    case False
    then have "snd (auto_launch p c cmd st) =
        st\<lparr>browser := b1, effects := effects st @ Launch (auto_launch_options p) # []\<rparr>"
      using assms l by (auto simp add: auto_launch_def emit_def Let_def split: option.splits)
    then show ?thesis by blast
  qed
qed

lemma auto_launch_frame:
  "\<exists>b es. snd (auto_launch p c cmd st) = st\<lparr>browser := b, effects := effects st @ es\<rparr>
      \<and> (es = [] \<or> es = [Launch (auto_launch_options p)]
            \<or> es = [Launch (auto_launch_options p), StartCodegen (auto_codegen_options p)])"
proof (cases "isLaunched c (browser st) \<or> action cmd = js ''launch'' \<or> action cmd = js ''close''")
  case True
  then have "snd (auto_launch p c cmd st) = st\<lparr>browser := browser st, effects := effects st @ []\<rparr>"
    by (simp add: auto_launch_closed)
  then show ?thesis by blast
next
  case False
  then obtain b es where "snd (auto_launch p c cmd st) =
            st\<lparr>browser := b, effects := effects st @ Launch (auto_launch_options p) # es\<rparr>"
     and "es = [] \<or> es = [StartCodegen (auto_codegen_options p)]"
    using auto_launch_open[of c st cmd p] by blast
  then show ?thesis by blast
qed

lemma handle_line_decode_failure:
  "parseCommand c line = ParseFailure i err \<Longrightarrow>
   handle_line p c conn line st =
     (False, st\<lparr>effects := effects st @
        [SocketWrite conn (errorResponse (case i of None \<Rightarrow> js ''unknown'' | Some x \<Rightarrow> x) err)]\<rparr>)"
  by (simp add: handle_line_def socket_write_def emit_def)

lemma handle_line_launch_throws:
  "parseCommand c line = ParseSuccess cmd \<Longrightarrow> auto_launch p c cmd st = (Some e, st1) \<Longrightarrow>
   handle_line p c conn line st =
     (False, st1\<lparr>effects := effects st1 @
        [SocketWrite conn (errorResponse (js ''error'') (err_message e))]\<rparr>)"
  by (simp add: handle_line_def catch_block_def socket_write_def emit_def)

lemma handle_line_execute_throws:
  "parseCommand c line = ParseSuccess cmd \<Longrightarrow> auto_launch p c cmd st = (None, st1) \<Longrightarrow>
   executeCommand c cmd (browser st1) = (Inl e, b) \<Longrightarrow>
   handle_line p c conn line st =
     (False, st1\<lparr>browser := b, effects := effects st1 @
        [Execute cmd, SocketWrite conn (errorResponse (js ''error'') (err_message e))]\<rparr>)"
  by (simp add: handle_line_def catch_block_def socket_write_def emit_def Let_def)

lemma handle_line_command:
  "parseCommand c line = ParseSuccess cmd \<Longrightarrow> auto_launch p c cmd st = (None, st1) \<Longrightarrow>
   executeCommand c cmd (browser st1) = (Inr resp, b) \<Longrightarrow> action cmd \<noteq> js ''close'' \<Longrightarrow>
   handle_line p c conn line st =
     (False, st1\<lparr>browser := b, effects := effects st1 @ [Execute cmd, SocketWrite conn resp]\<rparr>)"
  by (simp add: handle_line_def catch_block_def socket_write_def emit_def Let_def)

lemma handle_line_close:
  "parseCommand c line = ParseSuccess cmd \<Longrightarrow> action cmd = js ''close'' \<Longrightarrow>
   executeCommand c cmd (browser st) = (Inr resp, b) \<Longrightarrow>
   handle_line p c conn line st =
     (True,
      if shuttingDown st
      then st\<lparr>browser := b, effects := effects st @ [Execute cmd, SocketWrite conn resp]\<rparr>
      else st\<lparr>browser := b, shuttingDown := True, timers := timers st + 1,
              effects := effects st @ [Execute cmd, SocketWrite conn resp, SetTimeout 100]\<rparr>)"
  by (simp add: handle_line_def auto_launch_closed socket_write_def emit_def Let_def)

lemma auto_launch_no_write:
  "\<exists>b es. snd (auto_launch p c cmd st) = st\<lparr>browser := b, effects := effects st @ es\<rparr>
      \<and> filter is_SocketWrite es = []"
proof -
  obtain b es where "snd (auto_launch p c cmd st) = st\<lparr>browser := b, effects := effects st @ es\<rparr>"
    and "es = [] \<or> es = [Launch (auto_launch_options p)]
            \<or> es = [Launch (auto_launch_options p), StartCodegen (auto_codegen_options p)]"
    using auto_launch_frame[of p c cmd st] by blast
  moreover from this(2) have "filter is_SocketWrite es = []" by auto
  ultimately show ?thesis by blast
qed

lemma drain_continues:
  "newline \<notin> set line \<Longrightarrow> trim line \<noteq> [] \<Longrightarrow> h line st = (False, st') \<Longrightarrow>
   drain h (line @ newline # rest) st = drain h rest st'"
  by (simp add: drain_line)

text \<open>
  Claim C6.  For a line that the codec fails to decode, the dispatcher writes exactly
  one response, \<open>errorResponse\<close> of the identifier the codec salvaged, or of
  \<open>unknown\<close> if it salvaged none, with the codec's error text; nothing else of the
  state changes (the process has not exited, no teardown is scheduled), the handler
  does not return, and the loop goes on with the rest of the buffer.
\<close>

theorem decode_failure_response:
  "parseCommand c line = ParseFailure i err \<longrightarrow>
     handle_line p c conn line st =
       (False, st\<lparr>effects := effects st @
          [SocketWrite conn
             (errorResponse (case i of None \<Rightarrow> js ''unknown'' | Some x \<Rightarrow> x) err)]\<rparr>)
     \<and> (newline \<notin> set line \<and> trim line \<noteq> [] \<longrightarrow>
          drain (handle_line p c conn) (line @ newline # rest) st =
          drain (handle_line p c conn) rest
            (st\<lparr>effects := effects st @
               [SocketWrite conn
                  (errorResponse (case i of None \<Rightarrow> js ''unknown'' | Some x \<Rightarrow> x) err)]\<rparr>))"
  by (simp add: handle_line_decode_failure drain_continues)

theorem decode_failure_response_witness:
  "handle_line sample_platform sample_collab 0 (js ''garbage'') (initial_daemon Map.empty True)
     = (False, (initial_daemon Map.empty True)
          \<lparr>effects := [SocketWrite 0 (FailureResponse (js ''unknown'') (js ''bad''))]\<rparr>)
   \<and> drain (handle_line sample_platform sample_collab 0)
         (js ''{id:7'' @ newline # js ''title'' @ [newline]) (initial_daemon Map.empty True)
     = ([], (initial_daemon Map.empty True)
          \<lparr>effects := [SocketWrite 0 (FailureResponse (js ''7'') (js ''bad'')),
                       Execute \<lparr>cmd_id = js ''3'', action = js ''title'', cmd_args = []\<rparr>,
                       SocketWrite 0 (SuccessResponse (js ''3'') [])]\<rparr>)"
proof -
  let ?st = "initial_daemon Map.empty True :: bool daemon"
  have p1: "parseCommand sample_collab (js ''garbage'') = ParseFailure None (js ''bad'')"
    by (simp add: sample_collab_simps sample_parse_def js_simps)
  have p2: "parseCommand sample_collab (js ''{id:7'') = ParseFailure (Some (js ''7'')) (js ''bad'')"
    by (simp add: sample_collab_simps sample_parse_def js_simps)
  have l2: "newline \<notin> set (js ''{id:7'') \<and> trim (js ''{id:7'') \<noteq> []"
    by (simp add: js_simps newline_def trim_def is_js_whitespace_def)
  have 1: "handle_line sample_platform sample_collab 0 (js ''garbage'') ?st
     = (False, ?st\<lparr>effects := [SocketWrite 0 (FailureResponse (js ''unknown'') (js ''bad''))]\<rparr>)"
    using decode_failure_response[where c=sample_collab and line="js ''garbage''" and i=None
        and err="js ''bad''" and p=sample_platform and conn=0 and st="?st"] p1
    by (simp add: errorResponse_def initial_daemon_def)
  have 2: "drain (handle_line sample_platform sample_collab 0)
         (js ''{id:7'' @ newline # js ''title'' @ [newline]) ?st
       = drain (handle_line sample_platform sample_collab 0) (js ''title'' @ [newline])
           (?st\<lparr>effects := effects ?st @ [SocketWrite 0 (errorResponse (js ''7'') (js ''bad''))]\<rparr>)"
    using decode_failure_response[where c=sample_collab and line="js ''{id:7''" and i="Some (js ''7'')"
        and err="js ''bad''" and p=sample_platform and conn=0 and st="?st"
        and rest="js ''title'' @ [newline]"] p2 l2
    by simp
  have 3: "drain (handle_line sample_platform sample_collab 0) (js ''title'' @ [newline])
           (?st\<lparr>effects := effects ?st @ [SocketWrite 0 (errorResponse (js ''7'') (js ''bad''))]\<rparr>)
     = ([], ?st\<lparr>effects := [SocketWrite 0 (FailureResponse (js ''7'') (js ''bad'')),
                       Execute \<lparr>cmd_id = js ''3'', action = js ''title'', cmd_args = []\<rparr>,
                       SocketWrite 0 (SuccessResponse (js ''3'') [])]\<rparr>)"
    by (simp add: run_defs drain.simps sample_collab_simps sample_parse_def sample_execute_def
          sample_platform_simps initial_daemon_def js_simps)
  show ?thesis
    unfolding 1 2 3 by simp
qed

text \<open>
  Claim C10.  For a line that decodes to a command, when the automatic launch throws
  (\<open>browser.launch\<close> or the start of the recorder) or \<open>executeCommand\<close> throws,
  the dispatcher writes exactly one response, \<open>errorResponse\<close> of the fixed
  identifier \<open>error\<close> and the message of what was thrown, the handler does not
  return, and the loop goes on with the rest of the buffer.  The automatic launch
  itself writes nothing to the socket.
\<close>

theorem processing_failure_response:
  "parseCommand c line = ParseSuccess cmd \<longrightarrow>
     (auto_launch p c cmd st = (Some e, st') \<longrightarrow>
        handle_line p c conn line st =
          (False, st'\<lparr>effects := effects st' @
             [SocketWrite conn (errorResponse (js ''error'') (err_message e))]\<rparr>)
        \<and> (newline \<notin> set line \<and> trim line \<noteq> [] \<longrightarrow>
             drain (handle_line p c conn) (line @ newline # rest) st =
             drain (handle_line p c conn) rest
               (st'\<lparr>effects := effects st' @
                  [SocketWrite conn (errorResponse (js ''error'') (err_message e))]\<rparr>)))
     \<and> (auto_launch p c cmd st = (None, st') \<and> executeCommand c cmd (browser st') = (Inl e, b)
          \<longrightarrow>
        handle_line p c conn line st =
          (False, st'\<lparr>browser := b, effects := effects st' @
             [Execute cmd, SocketWrite conn (errorResponse (js ''error'') (err_message e))]\<rparr>)
        \<and> (newline \<notin> set line \<and> trim line \<noteq> [] \<longrightarrow>
             drain (handle_line p c conn) (line @ newline # rest) st =
             drain (handle_line p c conn) rest
               (st'\<lparr>browser := b, effects := effects st' @
                  [Execute cmd, SocketWrite conn (errorResponse (js ''error'') (err_message e))]\<rparr>)))
     \<and> (\<not> isLaunched c (browser st) \<and> action cmd \<noteq> js ''launch'' \<and> action cmd \<noteq> js ''close''
          \<and> launch c (auto_launch_options p) (browser st) = (Some e, b) \<longrightarrow>
        handle_line p c conn line st =
          (False, st\<lparr>browser := b, effects := effects st @
             [Launch (auto_launch_options p),
              SocketWrite conn (errorResponse (js ''error'') (err_message e))]\<rparr>))
     \<and> (\<exists>b' es. snd (auto_launch p c cmd st) = st\<lparr>browser := b', effects := effects st @ es\<rparr>
           \<and> filter is_SocketWrite es = [])"
proof (intro impI conjI)
  assume ok: "parseCommand c line = ParseSuccess cmd"
  show "\<exists>b' es. snd (auto_launch p c cmd st) = st\<lparr>browser := b', effects := effects st @ es\<rparr>
           \<and> filter is_SocketWrite es = []"
    by (rule auto_launch_no_write)
  {
    assume a: "auto_launch p c cmd st = (Some e, st')"
    show h: "handle_line p c conn line st =
          (False, st'\<lparr>effects := effects st' @
             [SocketWrite conn (errorResponse (js ''error'') (err_message e))]\<rparr>)"
      by (rule handle_line_launch_throws[OF ok a])
    assume "newline \<notin> set line \<and> trim line \<noteq> []"
    then show "drain (handle_line p c conn) (line @ newline # rest) st =
             drain (handle_line p c conn) rest
               (st'\<lparr>effects := effects st' @
                  [SocketWrite conn (errorResponse (js ''error'') (err_message e))]\<rparr>)"
      using h by (simp add: drain_continues)
  }
  {
    assume a: "auto_launch p c cmd st = (None, st') \<and> executeCommand c cmd (browser st') = (Inl e, b)"
    show h: "handle_line p c conn line st =
          (False, st'\<lparr>browser := b, effects := effects st' @
             [Execute cmd, SocketWrite conn (errorResponse (js ''error'') (err_message e))]\<rparr>)"
      using a by (simp add: handle_line_execute_throws[OF ok])
    assume "newline \<notin> set line \<and> trim line \<noteq> []"
    then show "drain (handle_line p c conn) (line @ newline # rest) st =
             drain (handle_line p c conn) rest
               (st'\<lparr>browser := b, effects := effects st' @
                  [Execute cmd, SocketWrite conn (errorResponse (js ''error'') (err_message e))]\<rparr>)"
      using h by (simp add: drain_continues)
  }
  {
    assume a: "\<not> isLaunched c (browser st) \<and> action cmd \<noteq> js ''launch'' \<and> action cmd \<noteq> js ''close''
          \<and> launch c (auto_launch_options p) (browser st) = (Some e, b)"
    then have "auto_launch p c cmd st =
        (Some e, st\<lparr>browser := b, effects := effects st @ [Launch (auto_launch_options p)]\<rparr>)"
      by (simp add: auto_launch_def emit_def Let_def)
    from handle_line_launch_throws[OF ok this]
    show "handle_line p c conn line st =
          (False, st\<lparr>browser := b, effects := effects st @
             [Launch (auto_launch_options p),
              SocketWrite conn (errorResponse (js ''error'') (err_message e))]\<rparr>)"
      by simp
  }
qed

theorem processing_failure_response_witness:
  "drain (handle_line sample_platform sample_collab 0)
      (js ''crash'' @ newline # js ''title'' @ [newline]) (initial_daemon Map.empty True)
     = ([], (initial_daemon Map.empty True)
          \<lparr>effects := [Execute \<lparr>cmd_id = js ''4'', action = js ''crash'', cmd_args = []\<rparr>,
                       SocketWrite 0 (FailureResponse (js ''error'') (js ''boom'')),
                       Execute \<lparr>cmd_id = js ''3'', action = js ''title'', cmd_args = []\<rparr>,
                       SocketWrite 0 (SuccessResponse (js ''3'') [])]\<rparr>)
   \<and> handle_line sample_platform
        (sample_collab\<lparr>launch := (\<lambda>opts b. (Some (JsThrown (js ''no browser'')), b))\<rparr>) 0
        (js ''title'') (initial_daemon Map.empty False)
     = (False, (initial_daemon Map.empty False)
          \<lparr>effects := [Launch \<lparr>lo_id = js ''auto'', lo_action = js ''launch'', headless = True,
                               executablePath = None, extensions = None\<rparr>,
                       SocketWrite 0 (FailureResponse (js ''error'') (js ''no browser''))]\<rparr>)"
proof -
  let ?st = "initial_daemon Map.empty True :: bool daemon"
  let ?st' = "initial_daemon Map.empty False :: bool daemon"
  let ?crash = "\<lparr>cmd_id = js ''4'', action = js ''crash'', cmd_args = []\<rparr>"
  let ?title = "\<lparr>cmd_id = js ''3'', action = js ''title'', cmd_args = []\<rparr>"
  let ?c' = "sample_collab\<lparr>launch := (\<lambda>opts b. (Some (JsThrown (js ''no browser'')), b))\<rparr>"
  have p1: "parseCommand sample_collab (js ''crash'') = ParseSuccess ?crash"
    by (simp add: sample_collab_simps sample_parse_def js_simps)
  have a1: "auto_launch sample_platform sample_collab ?crash ?st = (None, ?st)
      \<and> executeCommand sample_collab ?crash (browser ?st) = (Inl (JsError (js ''boom'')), True)"
    by (simp add: auto_launch_def sample_collab_simps sample_execute_def initial_daemon_def js_simps)
  have l1: "newline \<notin> set (js ''crash'') \<and> trim (js ''crash'') \<noteq> []"
    by (simp add: js_simps newline_def trim_def is_js_whitespace_def)
  have 1: "drain (handle_line sample_platform sample_collab 0)
      (js ''crash'' @ newline # js ''title'' @ [newline]) ?st
     = drain (handle_line sample_platform sample_collab 0) (js ''title'' @ [newline])
         (?st\<lparr>browser := True, effects := effects ?st @
             [Execute ?crash,
              SocketWrite 0 (errorResponse (js ''error'') (err_message (JsError (js ''boom''))))]\<rparr>)"
    using processing_failure_response[where c=sample_collab and line="js ''crash''" and cmd="?crash"
        and p=sample_platform and st="?st" and st'="?st" and e="JsError (js ''boom'')" and b=True
        and conn=0 and rest="js ''title'' @ [newline]"] p1 a1 l1
    by blast
  have 2: "drain (handle_line sample_platform sample_collab 0) (js ''title'' @ [newline])
         (?st\<lparr>browser := True, effects := effects ?st @
             [Execute ?crash,
              SocketWrite 0 (errorResponse (js ''error'') (err_message (JsError (js ''boom''))))]\<rparr>)
     = ([], ?st\<lparr>effects := [Execute ?crash,
                       SocketWrite 0 (FailureResponse (js ''error'') (js ''boom'')),
                       Execute ?title,
                       SocketWrite 0 (SuccessResponse (js ''3'') [])]\<rparr>)"
    by (simp add: run_defs drain.simps sample_collab_simps sample_parse_def sample_execute_def
          sample_platform_simps initial_daemon_def js_simps)
  have p2: "parseCommand ?c' (js ''title'') = ParseSuccess ?title"
    by (simp add: sample_collab_def sample_parse_def js_simps)
  have a2: "\<not> isLaunched ?c' (browser ?st') \<and> action ?title \<noteq> js ''launch''
      \<and> action ?title \<noteq> js ''close''
      \<and> launch ?c' (auto_launch_options sample_platform) (browser ?st')
          = (Some (JsThrown (js ''no browser'')), False)"
    by (simp add: sample_collab_def initial_daemon_def js_simps)
  have o: "auto_launch_options sample_platform =
      \<lparr>lo_id = js ''auto'', lo_action = js ''launch'', headless = True,
       executablePath = None, extensions = None\<rparr>"
    by (simp add: auto_launch_options_def auto_extensions_def sample_platform_simps)
  have 3: "handle_line sample_platform ?c' 0 (js ''title'') ?st'
     = (False, ?st'\<lparr>browser := False, effects := effects ?st' @
             [Launch (auto_launch_options sample_platform),
              SocketWrite 0 (errorResponse (js ''error'') (err_message (JsThrown (js ''no browser''))))]\<rparr>)"
    using processing_failure_response[where c="?c'" and line="js ''title''" and cmd="?title"
        and p=sample_platform and st="?st'" and e="JsThrown (js ''no browser'')" and b=False
        and conn=0] p2 a2
    by blast
  show ?thesis
    unfolding 1 2 3 o by (simp add: errorResponse_def initial_daemon_def)
qed

text \<open>
  Claim C5.  For a line that decodes to a command other than \<open>launch\<close> and
  \<open>close\<close>, the whole result of the dispatcher.  The options of the automatic
  launch are read from the environment: headless unless \<open>AGENT_BROWSER_HEADED\<close> is
  \<open>1\<close>, the executable path as given, the extensions variable split on commas,
  trimmed and without empty entries (none when the variable is unset or empty).  When
  the browser is launched, \<open>browser.launch\<close> is not called: the command is executed
  on the browser as it is and answered.  When the browser is not launched,
  \<open>browser.launch\<close> is called once, with these options, on the browser as it is;
  if it throws, the command is not executed and the error is answered; otherwise the
  recorder is started if \<open>AGENT_BROWSER_CODEGEN\<close> is \<open>1\<close> and it is not active
  (a throw is answered and the command not executed), and then the command is executed
  on the browser that the launch left, and answered.
\<close>

theorem auto_launch_gate:
  "parseCommand c line = ParseSuccess cmd \<and> action cmd \<noteq> js ''launch''
     \<and> action cmd \<noteq> js ''close'' \<longrightarrow>
     auto_launch_options p =
       \<lparr>lo_id = js ''auto'', lo_action = js ''launch'',
        headless = (env p (js ''AGENT_BROWSER_HEADED'') \<noteq> Some (js ''1'')),
        executablePath = env p (js ''AGENT_BROWSER_EXECUTABLE_PATH''),
        extensions =
          (case env p (js ''AGENT_BROWSER_EXTENSIONS'') of
             None \<Rightarrow> None
           | Some v \<Rightarrow>
               if v = [] then None
               else Some (filter (\<lambda>e. e \<noteq> []) (map trim (split_on comma v))))\<rparr>
   \<and> (isLaunched c (browser st) \<longrightarrow>
        handle_line p c conn line st =
          (case executeCommand c cmd (browser st) of
             (r, b) \<Rightarrow>
               (False,
                st\<lparr>browser := b,
                   effects := effects st @
                     [Execute cmd,
                      SocketWrite conn
                        (case r of
                           Inl x \<Rightarrow> errorResponse (js ''error'') (err_message x)
                         | Inr resp \<Rightarrow> resp)]\<rparr>)))
   \<and> (\<not> isLaunched c (browser st)
        \<and> launch c (auto_launch_options p) (browser st) = (Some e, b1) \<longrightarrow>
        handle_line p c conn line st =
          (False,
           st\<lparr>browser := b1,
              effects := effects st @
                [Launch (auto_launch_options p),
                 SocketWrite conn (errorResponse (js ''error'') (err_message e))]\<rparr>))
   \<and> (\<not> isLaunched c (browser st)
        \<and> launch c (auto_launch_options p) (browser st) = (None, b1)
        \<and> \<not> (env p (js ''AGENT_BROWSER_CODEGEN'') = Some (js ''1'')
              \<and> \<not> isCodegenActive c b1) \<longrightarrow>
        handle_line p c conn line st =
          (case executeCommand c cmd b1 of
             (r, b) \<Rightarrow>
               (False,
                st\<lparr>browser := b,
                   effects := effects st @
                     [Launch (auto_launch_options p), Execute cmd,
                      SocketWrite conn
                        (case r of
                           Inl x \<Rightarrow> errorResponse (js ''error'') (err_message x)
                         | Inr resp \<Rightarrow> resp)]\<rparr>)))
   \<and> (\<not> isLaunched c (browser st)
        \<and> launch c (auto_launch_options p) (browser st) = (None, b1)
        \<and> env p (js ''AGENT_BROWSER_CODEGEN'') = Some (js ''1'') \<and> \<not> isCodegenActive c b1
        \<and> startCodegen c (auto_codegen_options p) b1 = (None, b2) \<longrightarrow>
        handle_line p c conn line st =
          (case executeCommand c cmd b2 of
             (r, b) \<Rightarrow>
               (False,
                st\<lparr>browser := b,
                   effects := effects st @
                     [Launch (auto_launch_options p),
                      StartCodegen (auto_codegen_options p), Execute cmd,
                      SocketWrite conn
                        (case r of
                           Inl x \<Rightarrow> errorResponse (js ''error'') (err_message x)
                         | Inr resp \<Rightarrow> resp)]\<rparr>)))
   \<and> (\<not> isLaunched c (browser st)
        \<and> launch c (auto_launch_options p) (browser st) = (None, b1)
        \<and> env p (js ''AGENT_BROWSER_CODEGEN'') = Some (js ''1'') \<and> \<not> isCodegenActive c b1
        \<and> startCodegen c (auto_codegen_options p) b1 = (Some e, b2) \<longrightarrow>
        handle_line p c conn line st =
          (False,
           st\<lparr>browser := b2,
              effects := effects st @
                [Launch (auto_launch_options p), StartCodegen (auto_codegen_options p),
                 SocketWrite conn (errorResponse (js ''error'') (err_message e))]\<rparr>))"
proof (intro impI conjI)
  assume a: "parseCommand c line = ParseSuccess cmd \<and> action cmd \<noteq> js ''launch''
     \<and> action cmd \<noteq> js ''close''"
  then have ok: "parseCommand c line = ParseSuccess cmd" and nl: "action cmd \<noteq> js ''launch''"
    and nc: "action cmd \<noteq> js ''close''" by simp_all
  show "auto_launch_options p =
       \<lparr>lo_id = js ''auto'', lo_action = js ''launch'',
        headless = (env p (js ''AGENT_BROWSER_HEADED'') \<noteq> Some (js ''1'')),
        executablePath = env p (js ''AGENT_BROWSER_EXECUTABLE_PATH''),
        extensions =
          (case env p (js ''AGENT_BROWSER_EXTENSIONS'') of
             None \<Rightarrow> None
           | Some v \<Rightarrow>
               if v = [] then None
               else Some (filter (\<lambda>e. e \<noteq> []) (map trim (split_on comma v))))\<rparr>"
    by (simp add: auto_launch_options_def auto_extensions_def)
  have run: "\<And>st1. auto_launch p c cmd st = (None, st1) \<Longrightarrow>
      handle_line p c conn line st =
        (case executeCommand c cmd (browser st1) of
           (r, b) \<Rightarrow>
             (False,
              st1\<lparr>browser := b,
                  effects := effects st1 @
                    [Execute cmd,
                     SocketWrite conn
                       (case r of
                          Inl x \<Rightarrow> errorResponse (js ''error'') (err_message x)
                        | Inr resp \<Rightarrow> resp)]\<rparr>))"
  proof -
    fix st1 assume g: "auto_launch p c cmd st = (None, st1)"
    obtain r b where x: "executeCommand c cmd (browser st1) = (r, b)"
      by (cases "executeCommand c cmd (browser st1)")
    show "handle_line p c conn line st =
        (case executeCommand c cmd (browser st1) of
           (r, b) \<Rightarrow>
             (False,
              st1\<lparr>browser := b,
                  effects := effects st1 @
                    [Execute cmd,
                     SocketWrite conn
                       (case r of
                          Inl x \<Rightarrow> errorResponse (js ''error'') (err_message x)
                        | Inr resp \<Rightarrow> resp)]\<rparr>))"
    proof (cases r)
      case (Inl x')
      with x show ?thesis by (simp add: handle_line_execute_throws[OF ok g])
    next
      case (Inr resp)
      with x show ?thesis by (simp add: handle_line_command[OF ok g _ nc])
    qed
  qed
  {
    assume "isLaunched c (browser st)"
    then have "auto_launch p c cmd st = (None, st)" by (simp add: auto_launch_closed)
    from run[OF this]
    show "handle_line p c conn line st =
          (case executeCommand c cmd (browser st) of
             (r, b) \<Rightarrow>
               (False,
                st\<lparr>browser := b,
                   effects := effects st @
                     [Execute cmd,
                      SocketWrite conn
                        (case r of
                           Inl x \<Rightarrow> errorResponse (js ''error'') (err_message x)
                         | Inr resp \<Rightarrow> resp)]\<rparr>))" .
  }
  {
    assume h: "\<not> isLaunched c (browser st)
        \<and> launch c (auto_launch_options p) (browser st) = (Some e, b1)"
    then have "auto_launch p c cmd st =
        (Some e, st\<lparr>browser := b1, effects := effects st @ [Launch (auto_launch_options p)]\<rparr>)"
      using nl nc by (simp add: auto_launch_def emit_def Let_def)
    from handle_line_launch_throws[OF ok this]
    show "handle_line p c conn line st =
          (False,
           st\<lparr>browser := b1,
              effects := effects st @
                [Launch (auto_launch_options p),
                 SocketWrite conn (errorResponse (js ''error'') (err_message e))]\<rparr>)"
      by simp
  }
  {
    assume h: "\<not> isLaunched c (browser st)
        \<and> launch c (auto_launch_options p) (browser st) = (None, b1)
        \<and> \<not> (env p (js ''AGENT_BROWSER_CODEGEN'') = Some (js ''1'')
              \<and> \<not> isCodegenActive c b1)"
    then have "auto_launch p c cmd st =
        (None, st\<lparr>browser := b1, effects := effects st @ [Launch (auto_launch_options p)]\<rparr>)"
      using nl nc by (auto simp add: auto_launch_def emit_def Let_def)
    from run[OF this]
    show "handle_line p c conn line st =
          (case executeCommand c cmd b1 of
             (r, b) \<Rightarrow>
               (False,
                st\<lparr>browser := b,
                   effects := effects st @
                     [Launch (auto_launch_options p), Execute cmd,
                      SocketWrite conn
                        (case r of
                           Inl x \<Rightarrow> errorResponse (js ''error'') (err_message x)
                         | Inr resp \<Rightarrow> resp)]\<rparr>))"
      by (simp split: prod.splits)
  }
  {
    assume h: "\<not> isLaunched c (browser st)
        \<and> launch c (auto_launch_options p) (browser st) = (None, b1)
        \<and> env p (js ''AGENT_BROWSER_CODEGEN'') = Some (js ''1'') \<and> \<not> isCodegenActive c b1
        \<and> startCodegen c (auto_codegen_options p) b1 = (None, b2)"
    then have "auto_launch p c cmd st =
        (None, st\<lparr>browser := b2, effects := effects st @
            [Launch (auto_launch_options p), StartCodegen (auto_codegen_options p)]\<rparr>)"
      using nl nc by (simp add: auto_launch_def emit_def Let_def)
    from run[OF this]
    show "handle_line p c conn line st =
          (case executeCommand c cmd b2 of
             (r, b) \<Rightarrow>
               (False,
                st\<lparr>browser := b,
                   effects := effects st @
                     [Launch (auto_launch_options p),
                      StartCodegen (auto_codegen_options p), Execute cmd,
                      SocketWrite conn
                        (case r of
                           Inl x \<Rightarrow> errorResponse (js ''error'') (err_message x)
                         | Inr resp \<Rightarrow> resp)]\<rparr>))"
      by (simp split: prod.splits)
  }
  {
    assume h: "\<not> isLaunched c (browser st)
        \<and> launch c (auto_launch_options p) (browser st) = (None, b1)
        \<and> env p (js ''AGENT_BROWSER_CODEGEN'') = Some (js ''1'') \<and> \<not> isCodegenActive c b1
        \<and> startCodegen c (auto_codegen_options p) b1 = (Some e, b2)"
    then have "auto_launch p c cmd st =
        (Some e, st\<lparr>browser := b2, effects := effects st @
            [Launch (auto_launch_options p), StartCodegen (auto_codegen_options p)]\<rparr>)"
      using nl nc by (simp add: auto_launch_def emit_def Let_def)
    from handle_line_launch_throws[OF ok this]
    show "handle_line p c conn line st =
          (False,
           st\<lparr>browser := b2,
              effects := effects st @
                [Launch (auto_launch_options p), StartCodegen (auto_codegen_options p),
                 SocketWrite conn (errorResponse (js ''error'') (err_message e))]\<rparr>)"
      by simp
  }
qed

text \<open>
  The gate on the sample instances.  With the extensions variable \<open>/a, ,/b c,\<close> and
  the headed toggle set, a \<open>title\<close> command on a browser that is not launched
  launches it, headed, with the extensions \<open>/a\<close> and \<open>/b c\<close>, and is executed on
  the launched browser; on a launched browser it is executed with no launch; and when
  the launch throws the command is not executed.
\<close>

theorem auto_launch_gate_witness:
  "handle_line
       (sample_platform\<lparr>env := [js ''AGENT_BROWSER_EXTENSIONS'' \<mapsto> js ''/a, ,/b c,'',
                                js ''AGENT_BROWSER_HEADED'' \<mapsto> js ''1'']\<rparr>)
       sample_collab 0 (js ''title'') (initial_daemon Map.empty False)
     = (False,
        (initial_daemon Map.empty False)
          \<lparr>browser := True,
           effects :=
             [Launch \<lparr>lo_id = js ''auto'', lo_action = js ''launch'', headless = False,
                      executablePath = None, extensions = Some [js ''/a'', js ''/b c'']\<rparr>,
              Execute \<lparr>cmd_id = js ''3'', action = js ''title'', cmd_args = []\<rparr>,
              SocketWrite 0 (SuccessResponse (js ''3'') [])]\<rparr>)
   \<and> handle_line sample_platform sample_collab 0 (js ''title'') (initial_daemon Map.empty True)
     = (False,
        (initial_daemon Map.empty True)
          \<lparr>effects :=
             [Execute \<lparr>cmd_id = js ''3'', action = js ''title'', cmd_args = []\<rparr>,
              SocketWrite 0 (SuccessResponse (js ''3'') [])]\<rparr>)
   \<and> handle_line sample_platform
        (sample_collab\<lparr>launch := (\<lambda>opts b. (Some (JsError (js ''no display'')), b))\<rparr>) 0
        (js ''title'') (initial_daemon Map.empty False)
     = (False,
        (initial_daemon Map.empty False)
          \<lparr>effects :=
             [Launch \<lparr>lo_id = js ''auto'', lo_action = js ''launch'', headless = True,
                      executablePath = None, extensions = None\<rparr>,
              SocketWrite 0 (FailureResponse (js ''error'') (js ''no display''))]\<rparr>)"
proof -
  let ?p = "sample_platform\<lparr>env := [js ''AGENT_BROWSER_EXTENSIONS'' \<mapsto> js ''/a, ,/b c,'',
                                js ''AGENT_BROWSER_HEADED'' \<mapsto> js ''1'']\<rparr>"
  let ?c' = "sample_collab\<lparr>launch := (\<lambda>opts b. (Some (JsError (js ''no display'')), b))\<rparr>"
  let ?title = "\<lparr>cmd_id = js ''3'', action = js ''title'', cmd_args = []\<rparr>"
  let ?st = "initial_daemon Map.empty False :: bool daemon"
  let ?st' = "initial_daemon Map.empty True :: bool daemon"
  have h: "parseCommand sample_collab (js ''title'') = ParseSuccess ?title
      \<and> action ?title \<noteq> js ''launch'' \<and> action ?title \<noteq> js ''close''"
    by (simp add: sample_collab_simps sample_parse_def js_simps)
  have h': "parseCommand ?c' (js ''title'') = ParseSuccess ?title
      \<and> action ?title \<noteq> js ''launch'' \<and> action ?title \<noteq> js ''close''"
    by (simp add: sample_collab_def sample_parse_def js_simps)
  have n: "\<not> isLaunched sample_collab (browser ?st)
      \<and> launch sample_collab (auto_launch_options ?p) (browser ?st) = (None, True)
      \<and> \<not> (env ?p (js ''AGENT_BROWSER_CODEGEN'') = Some (js ''1'')
            \<and> \<not> isCodegenActive sample_collab True)"
    by (simp add: sample_collab_simps sample_platform_def initial_daemon_def js_simps)
  have l: "isLaunched sample_collab (browser ?st')"
    by (simp add: sample_collab_simps initial_daemon_def)
  have t: "\<not> isLaunched ?c' (browser ?st)
      \<and> launch ?c' (auto_launch_options sample_platform) (browser ?st)
          = (Some (JsError (js ''no display'')), False)"
    by (simp add: sample_collab_def initial_daemon_def)
  have x: "executeCommand sample_collab ?title True = (Inr (SuccessResponse (js ''3'') []), True)"
    by (simp add: sample_collab_simps sample_execute_def js_simps)
  have o: "auto_launch_options ?p =
      \<lparr>lo_id = js ''auto'', lo_action = js ''launch'', headless = False,
       executablePath = None, extensions = Some [js ''/a'', js ''/b c'']\<rparr>"
    using auto_launch_gate[where c=sample_collab and line="js ''title''" and cmd="?title"
        and p="?p"] h
    by (simp add: sample_platform_def comma_def trim_def is_js_whitespace_def js_simps)
  have o': "auto_launch_options sample_platform =
      \<lparr>lo_id = js ''auto'', lo_action = js ''launch'', headless = True,
       executablePath = None, extensions = None\<rparr>"
    using auto_launch_gate[where c=sample_collab and line="js ''title''" and cmd="?title"
        and p=sample_platform] h
    by (simp add: sample_platform_simps)
  have 1: "handle_line ?p sample_collab 0 (js ''title'') ?st =
      (False, ?st\<lparr>browser := True, effects := effects ?st @
          [Launch (auto_launch_options ?p), Execute ?title,
           SocketWrite 0 (SuccessResponse (js ''3'') [])]\<rparr>)"
    using auto_launch_gate[where c=sample_collab and line="js ''title''" and cmd="?title"
        and st="?st" and p="?p" and conn=0 and ?b1.0=True] h n
    by (simp add: x)
  have 2: "handle_line sample_platform sample_collab 0 (js ''title'') ?st' =
      (False, ?st'\<lparr>browser := True, effects := effects ?st' @
          [Execute ?title, SocketWrite 0 (SuccessResponse (js ''3'') [])]\<rparr>)"
    using auto_launch_gate[where c=sample_collab and line="js ''title''" and cmd="?title"
        and st="?st'" and p=sample_platform and conn=0] h l
    by (simp add: x initial_daemon_def)
  have 3: "handle_line sample_platform ?c' 0 (js ''title'') ?st =
      (False, ?st\<lparr>browser := False, effects := effects ?st @
          [Launch (auto_launch_options sample_platform),
           SocketWrite 0 (errorResponse (js ''error'') (err_message (JsError (js ''no display''))))]\<rparr>)"
    using auto_launch_gate[where c="?c'" and line="js ''title''" and cmd="?title"
        and st="?st" and p=sample_platform and conn=0 and e="JsError (js ''no display'')"
        and ?b1.0=False] h' t
    by blast
  show ?thesis
    unfolding 1 2 3 o o' by (simp add: errorResponse_def initial_daemon_def)
qed

section \<open>Properties of startup\<close>

lemma writeFileSync_written:
  "write_error p path = None \<Longrightarrow>
   writeFileSync p path content st =
     (None, st\<lparr>files := (files st)(path \<mapsto> content),
               effects := effects st @ [WriteFile path content]\<rparr>)"
  by (simp add: writeFileSync_def emit_def)

lemma writeFileSync_throws:
  "write_error p path = Some m \<Longrightarrow> writeFileSync p path content st = (Some (JsError m), st)"
  by (simp add: writeFileSync_def)

lemma startDaemon_fulfils:
  "(fst (startDaemon p c opt fs b) = None) =
     ((\<forall>n. resolve_streamPort p opt = Some n \<and> n > 0 \<longrightarrow>
           stream_start c n = None \<and> write_error p (getStreamPortFile p None) = None)
      \<and> write_error p (getPidFile p None) = None
      \<and> (isWindows p \<longrightarrow> write_error p (getPortFile p None) = None))"
  by (auto simp add: startDaemon_def writeFileSync_def Let_def
        split: option.splits prod.splits if_splits)

lemma startDaemon_effects:
  assumes "fst (startDaemon p c opt fs b) = None"
  shows "effects (snd (startDaemon p c opt fs b)) =
     map Unlink (unlinked p (artifacts p None) fs)
     @ (case resolve_streamPort p opt of
          None \<Rightarrow> []
        | Some n \<Rightarrow>
            if n > 0 then [StreamStart n, WriteFile (getStreamPortFile p None) (toString_int n)]
            else [])
     @ [CreateServer, WriteFile (getPidFile p None) (toString_int (pid p))]
     @ (if isWindows p
        then [WriteFile (getPortFile p None) (toString_int (getPortForSession (currentSession p))),
              Listen (TcpPort (getPortForSession (currentSession p)))]
        else [Listen (UnixSocket (getSocketPath p None))])"
  using assms
  by (auto simp add: startDaemon_def cleanupSocket_eq initial_daemon_def writeFileSync_def emit_def
        Let_def split: option.splits prod.splits if_splits)


lemma startDaemon_stream_rejects:
  assumes "resolve_streamPort p opt = Some n" "n > 0"
    and "stream_start c n = Some e
         \<or> stream_start c n = None \<and> write_error p (getStreamPortFile p None) = Some m
             \<and> e = JsError m"
  shows "fst (startDaemon p c opt fs b) = Some e
     \<and> effects (snd (startDaemon p c opt fs b)) =
         map Unlink (unlinked p (artifacts p None) fs) @ [StreamStart n]"
  using assms
  by (auto simp add: startDaemon_def cleanupSocket_eq initial_daemon_def writeFileSync_def emit_def
        Let_def split: option.splits prod.splits if_splits)

lemma startDaemon_marker_rejects:
  assumes "\<forall>n. resolve_streamPort p opt = Some n \<and> n > 0 \<longrightarrow>
           stream_start c n = None \<and> write_error p (getStreamPortFile p None) = None"
    and "write_error p (getPidFile p None) = Some m"
  shows "fst (startDaemon p c opt fs b) = Some (JsError m)
     \<and> effects (snd (startDaemon p c opt fs b)) =
         map Unlink (unlinked p (artifacts p None) fs)
         @ (case resolve_streamPort p opt of
              None \<Rightarrow> []
            | Some n \<Rightarrow>
                if n > 0
                then [StreamStart n, WriteFile (getStreamPortFile p None) (toString_int n)]
                else [])
         @ [CreateServer]"
  using assms
  by (auto simp add: startDaemon_def cleanupSocket_eq initial_daemon_def writeFileSync_def emit_def
        Let_def split: option.splits prod.splits if_splits)

lemma startDaemon_port_rejects:
  assumes "\<forall>n. resolve_streamPort p opt = Some n \<and> n > 0 \<longrightarrow>
           stream_start c n = None \<and> write_error p (getStreamPortFile p None) = None"
    and "write_error p (getPidFile p None) = None" "isWindows p"
    and "write_error p (getPortFile p None) = Some m"
  shows "fst (startDaemon p c opt fs b) = Some (JsError m)
     \<and> effects (snd (startDaemon p c opt fs b)) =
         map Unlink (unlinked p (artifacts p None) fs)
         @ (case resolve_streamPort p opt of
              None \<Rightarrow> []
            | Some n \<Rightarrow>
                if n > 0
                then [StreamStart n, WriteFile (getStreamPortFile p None) (toString_int n)]
                else [])
         @ [CreateServer, WriteFile (getPidFile p None) (toString_int (pid p))]"
  using assms
  by (auto simp add: startDaemon_def cleanupSocket_eq initial_daemon_def writeFileSync_def emit_def
        Let_def split: option.splits prod.splits if_splits)

lemma filter_Listen_Unlink: "filter is_Listen (map Unlink xs) = []"
  by (induction xs) simp_all

text \<open>
  Claim C3, as amended, for a stream port that is a safe integer (where the numbers of
  the source are exact).  A startup that is not cut short does, in this order: unlink
  the stale artifacts that exist; if the stream port is positive, start the stream
  server and write its port file; create the listener (\<open>net.createServer\<close>, not
  bound to any address yet); write the PID file; on Windows write the port file; only
  then bind the listener to the session's endpoint and start accepting
  (\<open>server.listen\<close>).  A startup is cut short, and \<open>startDaemon\<close> rejects, exactly
  when the stream server fails to start or one of the three file writes throws; what it
  has done by then is the part of this sequence before the operation that failed (the
  failed start of the stream server included), so the listener is never bound in a
  startup that rejects.
\<close>

theorem startDaemon_order:
  "(\<forall>n. resolve_streamPort p opt = Some n \<longrightarrow> is_safe_integer n) \<longrightarrow>
   (fst (startDaemon p c opt fs b) = None \<longrightarrow>
      effects (snd (startDaemon p c opt fs b)) =
        map Unlink (unlinked p (artifacts p None) fs)
        @ (case resolve_streamPort p opt of
             None \<Rightarrow> []
           | Some n \<Rightarrow>
               if n > 0 then [StreamStart n, WriteFile (getStreamPortFile p None) (toString_int n)]
               else [])
        @ [CreateServer, WriteFile (getPidFile p None) (toString_int (pid p))]
        @ (if isWindows p
           then [WriteFile (getPortFile p None) (toString_int (getPortForSession (currentSession p))),
                 Listen (TcpPort (getPortForSession (currentSession p)))]
           else [Listen (UnixSocket (getSocketPath p None))]))
   \<and> ((fst (startDaemon p c opt fs b) = None) =
        ((\<forall>n. resolve_streamPort p opt = Some n \<and> n > 0 \<longrightarrow>
              stream_start c n = None \<and> write_error p (getStreamPortFile p None) = None)
         \<and> write_error p (getPidFile p None) = None
         \<and> (isWindows p \<longrightarrow> write_error p (getPortFile p None) = None)))
   \<and> (resolve_streamPort p opt = Some n \<and> n > 0
        \<and> (stream_start c n = Some e
            \<or> stream_start c n = None \<and> write_error p (getStreamPortFile p None) = Some m
                \<and> e = JsError m) \<longrightarrow>
        fst (startDaemon p c opt fs b) = Some e
        \<and> effects (snd (startDaemon p c opt fs b)) =
            map Unlink (unlinked p (artifacts p None) fs) @ [StreamStart n])
   \<and> ((\<forall>n. resolve_streamPort p opt = Some n \<and> n > 0 \<longrightarrow>
            stream_start c n = None \<and> write_error p (getStreamPortFile p None) = None)
        \<and> write_error p (getPidFile p None) = Some m \<longrightarrow>
        fst (startDaemon p c opt fs b) = Some (JsError m)
        \<and> effects (snd (startDaemon p c opt fs b)) =
            map Unlink (unlinked p (artifacts p None) fs)
            @ (case resolve_streamPort p opt of
                 None \<Rightarrow> []
               | Some n \<Rightarrow>
                   if n > 0
                   then [StreamStart n, WriteFile (getStreamPortFile p None) (toString_int n)]
                   else [])
            @ [CreateServer])
   \<and> ((\<forall>n. resolve_streamPort p opt = Some n \<and> n > 0 \<longrightarrow>
            stream_start c n = None \<and> write_error p (getStreamPortFile p None) = None)
        \<and> write_error p (getPidFile p None) = None \<and> isWindows p
        \<and> write_error p (getPortFile p None) = Some m \<longrightarrow>
        fst (startDaemon p c opt fs b) = Some (JsError m)
        \<and> effects (snd (startDaemon p c opt fs b)) =
            map Unlink (unlinked p (artifacts p None) fs)
            @ (case resolve_streamPort p opt of
                 None \<Rightarrow> []
               | Some n \<Rightarrow>
                   if n > 0
                   then [StreamStart n, WriteFile (getStreamPortFile p None) (toString_int n)]
                   else [])
            @ [CreateServer, WriteFile (getPidFile p None) (toString_int (pid p))])
   \<and> (fst (startDaemon p c opt fs b) \<noteq> None \<longrightarrow>
        filter is_Listen (effects (snd (startDaemon p c opt fs b))) = [])"
proof (intro conjI impI)
  show "(fst (startDaemon p c opt fs b) = None) =
        ((\<forall>n. resolve_streamPort p opt = Some n \<and> n > 0 \<longrightarrow>
              stream_start c n = None \<and> write_error p (getStreamPortFile p None) = None)
         \<and> write_error p (getPidFile p None) = None
         \<and> (isWindows p \<longrightarrow> write_error p (getPortFile p None) = None))"
    by (rule startDaemon_fulfils)
next
  assume "fst (startDaemon p c opt fs b) = None"
  then show "effects (snd (startDaemon p c opt fs b)) =
        map Unlink (unlinked p (artifacts p None) fs)
        @ (case resolve_streamPort p opt of
             None \<Rightarrow> []
           | Some n \<Rightarrow>
               if n > 0 then [StreamStart n, WriteFile (getStreamPortFile p None) (toString_int n)]
               else [])
        @ [CreateServer, WriteFile (getPidFile p None) (toString_int (pid p))]
        @ (if isWindows p
           then [WriteFile (getPortFile p None) (toString_int (getPortForSession (currentSession p))),
                 Listen (TcpPort (getPortForSession (currentSession p)))]
           else [Listen (UnixSocket (getSocketPath p None))])"
    by (rule startDaemon_effects)
next
  assume a: "resolve_streamPort p opt = Some n \<and> n > 0
        \<and> (stream_start c n = Some e
            \<or> stream_start c n = None \<and> write_error p (getStreamPortFile p None) = Some m
                \<and> e = JsError m)"
  from a have 1: "resolve_streamPort p opt = Some n" and 2: "n > 0"
    and 3: "stream_start c n = Some e
            \<or> stream_start c n = None \<and> write_error p (getStreamPortFile p None) = Some m
                \<and> e = JsError m"
    by simp_all
  from startDaemon_stream_rejects[OF 1 2 3]
  show "fst (startDaemon p c opt fs b) = Some e"
    and "effects (snd (startDaemon p c opt fs b)) =
            map Unlink (unlinked p (artifacts p None) fs) @ [StreamStart n]"
    by simp_all
next
  assume a: "(\<forall>n. resolve_streamPort p opt = Some n \<and> n > 0 \<longrightarrow>
            stream_start c n = None \<and> write_error p (getStreamPortFile p None) = None)
        \<and> write_error p (getPidFile p None) = Some m"
  from a have 1: "\<forall>n. resolve_streamPort p opt = Some n \<and> n > 0 \<longrightarrow>
            stream_start c n = None \<and> write_error p (getStreamPortFile p None) = None"
    and 2: "write_error p (getPidFile p None) = Some m" by blast+
  from startDaemon_marker_rejects[OF 1 2]
  show "fst (startDaemon p c opt fs b) = Some (JsError m)"
    and "effects (snd (startDaemon p c opt fs b)) =
            map Unlink (unlinked p (artifacts p None) fs)
            @ (case resolve_streamPort p opt of
                 None \<Rightarrow> []
               | Some n \<Rightarrow>
                   if n > 0
                   then [StreamStart n, WriteFile (getStreamPortFile p None) (toString_int n)]
                   else [])
            @ [CreateServer]"
    by simp_all
next
  assume a: "(\<forall>n. resolve_streamPort p opt = Some n \<and> n > 0 \<longrightarrow>
            stream_start c n = None \<and> write_error p (getStreamPortFile p None) = None)
        \<and> write_error p (getPidFile p None) = None \<and> isWindows p
        \<and> write_error p (getPortFile p None) = Some m"
  from a have 1: "\<forall>n. resolve_streamPort p opt = Some n \<and> n > 0 \<longrightarrow>
            stream_start c n = None \<and> write_error p (getStreamPortFile p None) = None"
    and 2: "write_error p (getPidFile p None) = None" and 3: "isWindows p"
    and 4: "write_error p (getPortFile p None) = Some m" by blast+
  from startDaemon_port_rejects[OF 1 2 3 4]
  show "fst (startDaemon p c opt fs b) = Some (JsError m)"
    and "effects (snd (startDaemon p c opt fs b)) =
            map Unlink (unlinked p (artifacts p None) fs)
            @ (case resolve_streamPort p opt of
                 None \<Rightarrow> []
               | Some n \<Rightarrow>
                   if n > 0
                   then [StreamStart n, WriteFile (getStreamPortFile p None) (toString_int n)]
                   else [])
            @ [CreateServer, WriteFile (getPidFile p None) (toString_int (pid p))]"
    by simp_all
next
  assume "fst (startDaemon p c opt fs b) \<noteq> None"
  then show "filter is_Listen (effects (snd (startDaemon p c opt fs b))) = []"
    by (auto simp add: startDaemon_def cleanupSocket_eq initial_daemon_def writeFileSync_def
          emit_def filter_Listen_Unlink Let_def
          split: option.splits prod.splits if_splits)
qed

lemma digits_samples:
  "toString_int 4242 = js ''4242''" "toString_int 9223 = js ''9223''"
  by (simp_all add: toString_int_def digits_of.simps js_simps)

text \<open>
  Two startups on the sample platform.  With a stale socket file and the stream port
  \<open>9223\<close>, the whole sequence.  With the session \<open>no/such\<close>, whose PID file is in
  a directory that does not exist, the write of the PID file throws: \<open>startDaemon\<close>
  rejects with that error, having only created the listener, and never listens.
\<close>

theorem startDaemon_order_witness:
  "fst (startDaemon sample_platform sample_collab (Some 9223)
          [js ''/tmp/agent-browser-t1.sock'' \<mapsto> []] False) = None
   \<and> effects (snd (startDaemon sample_platform sample_collab (Some 9223)
                   [js ''/tmp/agent-browser-t1.sock'' \<mapsto> []] False))
     = [Unlink (js ''/tmp/agent-browser-t1.sock''),
        StreamStart 9223,
        WriteFile (js ''/tmp/agent-browser-t1.stream'') (js ''9223''),
        CreateServer,
        WriteFile (js ''/tmp/agent-browser-t1.pid'') (js ''4242''),
        Listen (UnixSocket (js ''/tmp/agent-browser-t1.sock''))]
   \<and> fst (startDaemon
            (sample_platform
               \<lparr>currentSession := js ''no/such'',
                write_error := (\<lambda>f. if f = js ''/tmp/agent-browser-no/such.pid''
                                     then Some (js ''ENOENT'') else None)\<rparr>)
            sample_collab None Map.empty False) = Some (JsError (js ''ENOENT''))
   \<and> effects (snd (startDaemon
            (sample_platform
               \<lparr>currentSession := js ''no/such'',
                write_error := (\<lambda>f. if f = js ''/tmp/agent-browser-no/such.pid''
                                     then Some (js ''ENOENT'') else None)\<rparr>)
            sample_collab None Map.empty False)) = [CreateServer]"
proof -
  let ?fs = "[js ''/tmp/agent-browser-t1.sock'' \<mapsto> []]"
  let ?q = "sample_platform
               \<lparr>currentSession := js ''no/such'',
                write_error := (\<lambda>f. if f = js ''/tmp/agent-browser-no/such.pid''
                                     then Some (js ''ENOENT'') else None)\<rparr>"
  have r: "resolve_streamPort sample_platform (Some 9223) = Some 9223"
    by (simp add: resolve_streamPort_def)
  have s: "\<forall>n. resolve_streamPort sample_platform (Some 9223) = Some n \<longrightarrow> is_safe_integer n"
    by (simp add: r is_safe_integer_def)
  have ok: "fst (startDaemon sample_platform sample_collab (Some 9223) ?fs False) = None"
    using startDaemon_order[where p=sample_platform and c=sample_collab and opt="Some 9223"
        and fs="?fs" and b=False] s
    by (simp add: r sample_collab_simps sample_platform_simps)
  have u: "unlinked sample_platform (artifacts sample_platform None) ?fs
          = [js ''/tmp/agent-browser-t1.sock'']"
    by (simp add: sample_paths sample_platform_simps js_simps)
  have 1: "effects (snd (startDaemon sample_platform sample_collab (Some 9223) ?fs False))
     = [Unlink (js ''/tmp/agent-browser-t1.sock''),
        StreamStart 9223,
        WriteFile (js ''/tmp/agent-browser-t1.stream'') (js ''9223''),
        CreateServer,
        WriteFile (js ''/tmp/agent-browser-t1.pid'') (js ''4242''),
        Listen (UnixSocket (js ''/tmp/agent-browser-t1.sock''))]"
    using startDaemon_order[where p=sample_platform and c=sample_collab and opt="Some 9223"
        and fs="?fs" and b=False] s ok
    by (simp add: r u sample_paths sample_platform_simps digits_samples)
  have r': "resolve_streamPort ?q None = Some 0"
    by (simp add: resolve_streamPort_def sample_platform_def)
  have s': "\<forall>n. resolve_streamPort ?q None = Some n \<longrightarrow> is_safe_integer n"
    by (simp add: r' is_safe_integer_def)
  have w1: "\<forall>n. resolve_streamPort ?q None = Some n \<and> n > 0 \<longrightarrow>
              stream_start sample_collab n = None
              \<and> write_error ?q (getStreamPortFile ?q None) = None"
    by (simp add: r')
  have w2: "write_error ?q (getPidFile ?q None) = Some (js ''ENOENT'')"
    by (simp add: path_defs sample_platform_def js_simps)
  from w1 w2 have w: "(\<forall>n. resolve_streamPort ?q None = Some n \<and> n > 0 \<longrightarrow>
              stream_start sample_collab n = None
              \<and> write_error ?q (getStreamPortFile ?q None) = None)
       \<and> write_error ?q (getPidFile ?q None) = Some (js ''ENOENT'')"
    by (rule conjI)
  have u': "unlinked ?q (artifacts ?q None) Map.empty = []"
    by (simp add: artifacts_def)
  have 2: "fst (startDaemon ?q sample_collab None Map.empty False) = Some (JsError (js ''ENOENT''))
      \<and> effects (snd (startDaemon ?q sample_collab None Map.empty False)) = [CreateServer]"
    using startDaemon_order[where p="?q" and c=sample_collab and opt=None
        and fs=Map.empty and b=False and m="js ''ENOENT''"] s' w
    by (simp add: r' u')
  from ok 1 2 show ?thesis by simp
qed

text \<open>
  Claim C3 as stated fails on the place of the bind: the listener is bound to the
  resolved endpoint by \<open>server.listen\<close>, after the PID file was written, not before.
\<close>

theorem startDaemon_bind_after_marker_counterexample:
  "effects (snd (startDaemon sample_platform sample_collab None Map.empty False))
     = [CreateServer,
        WriteFile (js ''/tmp/agent-browser-t1.pid'') (js ''4242''),
        Listen (UnixSocket (js ''/tmp/agent-browser-t1.sock''))]
   \<and> getConnectionInfo sample_platform None = UnixSocket (js ''/tmp/agent-browser-t1.sock'')
   \<and> \<not> occurs_before (Listen (getConnectionInfo sample_platform None))
          (WriteFile (getPidFile sample_platform None) (toString_int (pid sample_platform)))
          (effects (snd (startDaemon sample_platform sample_collab None Map.empty False)))
   \<and> occurs_before
          (WriteFile (getPidFile sample_platform None) (toString_int (pid sample_platform)))
          (Listen (getConnectionInfo sample_platform None))
          (effects (snd (startDaemon sample_platform sample_collab None Map.empty False)))"
proof -
  have e: "effects (snd (startDaemon sample_platform sample_collab None Map.empty False))
     = [CreateServer,
        WriteFile (js ''/tmp/agent-browser-t1.pid'') (js ''4242''),
        Listen (UnixSocket (js ''/tmp/agent-browser-t1.sock''))]"
    by (simp add: startDaemon_def cleanupSocket_eq initial_daemon_def writeFileSync_def emit_def
          resolve_streamPort_def sample_paths sample_platform_simps digits_samples Let_def)
  have c: "getConnectionInfo sample_platform None = UnixSocket (js ''/tmp/agent-browser-t1.sock'')"
    by (simp add: getConnectionInfo_def path_defs sample_platform_simps js_simps)
  show ?thesis
    unfolding e c by (simp add: sample_paths sample_platform_simps digits_samples js_simps)
qed

section \<open>Properties of the teardown bodies\<close>

lemma exit_after_cleanup:
  "process_exit p code (cleanupSocket p None st) =
     st\<lparr>files := (\<lambda>g. if g \<in> set (unlinked p (artifacts p None) (files st)) then None
                        else files st g),
        exited := Some code,
        effects := effects st @ map Unlink (unlinked p (artifacts p None) (files st))
                   @ [Exit code]\<rparr>"
  by (simp add: process_exit_after_cleanup) (simp add: cleanupSocket_eq)

lemma fatal_handler_eq:
  "fatal_handler p st =
     st\<lparr>files := (\<lambda>g. if g \<in> set (unlinked p (artifacts p None) (files st)) then None
                        else files st g),
        exited := Some 1,
        effects := effects st @ [ConsoleError]
                   @ map Unlink (unlinked p (artifacts p None) (files st)) @ [Exit 1]\<rparr>"
  by (simp add: fatal_handler_def exit_after_cleanup emit_def cong: if_cong)

lemma close_timer_eq:
  "close_timer p st =
     st\<lparr>files := (\<lambda>g. if g \<in> set (unlinked p (artifacts p None) (files st)) then None
                        else files st g),
        exited := Some 0,
        effects := effects st @ [ServerClose]
                   @ map Unlink (unlinked p (artifacts p None) (files st)) @ [Exit 0]\<rparr>"
  by (simp add: close_timer_def exit_after_cleanup emit_def cong: if_cong)

lemma unlink_existing_fields:
  "browser (unlink_existing p fs st) = browser st"
  "shuttingDown (unlink_existing p fs st) = shuttingDown st"
  "streamServer (unlink_existing p fs st) = streamServer st"
  "buffers (unlink_existing p fs st) = buffers st"
  "timers (unlink_existing p fs st) = timers st"
  "exited (unlink_existing p fs st) = exited st"
  by (simp_all add: unlink_existing_eq)

lemma shutdown_idle: "shuttingDown st \<Longrightarrow> shutdown p c st = st"
  by (simp add: shutdown_def)

lemma shutdown_clean:
  assumes "\<not> shuttingDown st" "streamServer st \<noteq> None \<longrightarrow> stream_stop c = None"
    "browser_close c (browser st) = (None, b)"
  shows "shutdown p c st =
     (let st2 = (if streamServer st = None then st\<lparr>shuttingDown := True\<rparr>
                 else unlink_existing p [getStreamPortFile p None]
                        (st\<lparr>shuttingDown := True, effects := effects st @ [StreamStop],
                            streamServer := None\<rparr>))
      in st2\<lparr>browser := b,
             files := (\<lambda>g. if g \<in> set (unlinked p (artifacts p None) (files st2)) then None
                             else files st2 g),
             exited := Some 0,
             effects := effects st2 @ [BrowserClose, ServerClose]
                        @ map Unlink (unlinked p (artifacts p None) (files st2)) @ [Exit 0]\<rparr>)"
proof (cases "streamServer st = None")
  case True
  with assms show ?thesis
    by (simp add: shutdown_def exit_after_cleanup emit_def Let_def cong: if_cong)
next
  case False
  with assms have s: "stream_stop c = None" by simp
  let ?st2 = "unlink_existing p [getStreamPortFile p None]
                        (st\<lparr>shuttingDown := True, effects := effects st @ [StreamStop],
                            streamServer := None\<rparr>)"
  have ne: "streamServer (st\<lparr>shuttingDown := True\<rparr>) \<noteq> None"
    using False by simp
  have "shutdown p c st =
      process_exit p 0 (cleanupSocket p None
        (emit ServerClose (emit BrowserClose (?st2\<lparr>browser := b\<rparr>))))"
    using assms(1,3) s ne
    by (simp add: shutdown_def Let_def unlink_existing_fields emit_def del: unlink_existing.simps)
  also have "\<dots> = ?st2\<lparr>browser := b,
             files := (\<lambda>g. if g \<in> set (unlinked p (artifacts p None) (files ?st2)) then None
                             else files ?st2 g),
             exited := Some 0,
             effects := effects ?st2 @ [BrowserClose, ServerClose]
                        @ map Unlink (unlinked p (artifacts p None) (files ?st2)) @ [Exit 0]\<rparr>"
    by (simp add: exit_after_cleanup emit_def del: unlink_existing.simps cong: if_cong)
  finally have fin: "shutdown p c st = ?st2\<lparr>browser := b,
             files := (\<lambda>g. if g \<in> set (unlinked p (artifacts p None) (files ?st2)) then None
                             else files ?st2 g),
             exited := Some 0,
             effects := effects ?st2 @ [BrowserClose, ServerClose]
                        @ map Unlink (unlinked p (artifacts p None) (files ?st2)) @ [Exit 0]\<rparr>" .
  show ?thesis
    by (simp only: Let_def False if_False fin)
qed

lemma shutdown_stop_rejects:
  "\<not> shuttingDown st \<Longrightarrow> streamServer st \<noteq> None \<Longrightarrow> stream_stop c = Some e \<Longrightarrow>
   shutdown p c st = fatal_handler p (emit StreamStop (st\<lparr>shuttingDown := True\<rparr>))"
  by (simp add: shutdown_def Let_def del: unlink_existing.simps)

lemma shutdown_clean_effects:
  assumes "\<not> shuttingDown st" "streamServer st \<noteq> None \<longrightarrow> stream_stop c = None"
    "browser_close c (browser st) = (None, b)"
  shows "effects (shutdown p c st) =
     effects st
     @ (if streamServer st = None then []
        else StreamStop # map Unlink (unlinked p [getStreamPortFile p None] (files st)))
     @ [BrowserClose, ServerClose]
     @ map Unlink (unlinked p (artifacts p None)
         (if streamServer st = None then files st
          else files (unlink_existing p [getStreamPortFile p None] st)))
     @ [Exit 0]"
    and "exited (shutdown p c st) = Some 0"
    and "shuttingDown (shutdown p c st)"
    and "browser (shutdown p c st) = b"
proof -
  have f: "files (unlink_existing p [getStreamPortFile p None]
             (st\<lparr>shuttingDown := True, effects := effects st @ [StreamStop], streamServer := None\<rparr>))
         = files (unlink_existing p [getStreamPortFile p None] st)"
    by (rule ext) (simp add: unlink_existing_files del: unlink_existing.simps)
  show "effects (shutdown p c st) =
     effects st
     @ (if streamServer st = None then []
        else StreamStop # map Unlink (unlinked p [getStreamPortFile p None] (files st)))
     @ [BrowserClose, ServerClose]
     @ map Unlink (unlinked p (artifacts p None)
         (if streamServer st = None then files st
          else files (unlink_existing p [getStreamPortFile p None] st)))
     @ [Exit 0]"
    unfolding shutdown_clean[OF assms] Let_def
    by (simp add: f unlink_existing_effects del: unlink_existing.simps unlinked.simps)
  show "exited (shutdown p c st) = Some 0"
    unfolding shutdown_clean[OF assms] Let_def by simp
  show "shuttingDown (shutdown p c st)"
    unfolding shutdown_clean[OF assms] Let_def
    by (simp add: unlink_existing_fields del: unlink_existing.simps)
  show "browser (shutdown p c st) = b"
    unfolding shutdown_clean[OF assms] Let_def by simp
qed

lemma shutdown_unflagged:
  assumes "\<not> shuttingDown st" "streamServer st \<noteq> None \<longrightarrow> stream_stop c = None"
    "browser_close c (browser st) = (r, b)"
  shows "shutdown p c st =
     (let st2 = (if streamServer st = None then st\<lparr>shuttingDown := True\<rparr>
                 else unlink_existing p [getStreamPortFile p None]
                        (st\<lparr>shuttingDown := True, effects := effects st @ [StreamStop],
                            streamServer := None\<rparr>));
          st3 = st2\<lparr>browser := b, effects := effects st2 @ [BrowserClose]\<rparr>
      in case r of
           Some e \<Rightarrow> fatal_handler p st3
         | None \<Rightarrow> process_exit p 0 (cleanupSocket p None (emit ServerClose st3)))"
  using assms
  by (auto simp add: shutdown_def Let_def emit_def unlink_existing_fields
        split: option.splits simp del: unlink_existing.simps)

lemma shutdown_rejected_effects:
  assumes "\<not> shuttingDown st" "streamServer st \<noteq> None \<longrightarrow> stream_stop c = None"
    "browser_close c (browser st) = (Some e, b)"
  shows "effects (shutdown p c st) =
     effects st
     @ (if streamServer st = None then []
        else StreamStop # map Unlink (unlinked p [getStreamPortFile p None] (files st)))
     @ [BrowserClose, ConsoleError]
     @ map Unlink (unlinked p (artifacts p None)
         (if streamServer st = None then files st
          else files (unlink_existing p [getStreamPortFile p None] st)))
     @ [Exit 1]"
    and "exited (shutdown p c st) = Some 1"
proof -
  have f: "files (unlink_existing p [getStreamPortFile p None]
             (st\<lparr>shuttingDown := True, effects := effects st @ [StreamStop], streamServer := None\<rparr>))
         = files (unlink_existing p [getStreamPortFile p None] st)"
    by (rule ext) (simp add: unlink_existing_files del: unlink_existing.simps)
  show "effects (shutdown p c st) =
     effects st
     @ (if streamServer st = None then []
        else StreamStop # map Unlink (unlinked p [getStreamPortFile p None] (files st)))
     @ [BrowserClose, ConsoleError]
     @ map Unlink (unlinked p (artifacts p None)
         (if streamServer st = None then files st
          else files (unlink_existing p [getStreamPortFile p None] st)))
     @ [Exit 1]"
    unfolding shutdown_unflagged[OF assms] Let_def
    by (simp add: f fatal_handler_eq unlink_existing_effects
          del: unlink_existing.simps unlinked.simps)
  show "exited (shutdown p c st) = Some 1"
    unfolding shutdown_unflagged[OF assms] Let_def
    by (simp add: fatal_handler_eq)
qed

lemma step_fatal:
  "exited st = None \<Longrightarrow> ev \<in> {UncaughtException, UnhandledRejection, ServerError} \<Longrightarrow>
   step p c st ev = fatal_handler p st"
  by (auto simp add: step_def)

lemma step_exited: "exited st \<noteq> None \<Longrightarrow> step p c st ev = st"
  by (simp add: step_def)

text \<open>
  Claim C2, as amended.  The three kinds of trigger have three teardown bodies.  A
  termination signal runs \<open>shutdown\<close>: if the flag is unset it sets it and, when
  nothing rejects, stops the stream server and unlinks its port file (if a stream
  server is running), closes the browser, closes the listener, unlinks the session's
  artifacts and exits with status 0, in this order; if the flag is set it does
  nothing; if \<open>streamServer.stop()\<close> or \<open>browser.close()\<close> rejects, the rejection
  is unhandled and the process unlinks the artifacts and exits with status 1 without
  the remaining steps.  The
  timer of the close command closes the listener, unlinks the artifacts and exits
  with status 0.  An uncaught exception, an unhandled rejection and a listener error
  log, unlink the artifacts and exit with status 1, whatever the flag.  Nothing runs
  once the process has exited.
\<close>

theorem teardown_paths:
  "(exited st = None \<and> \<not> shuttingDown st
      \<and> (streamServer st \<noteq> None \<longrightarrow> stream_stop c = None)
      \<and> fst (browser_close c (browser st)) = None \<longrightarrow>
      effects (step p c st Signal) =
        effects st
        @ (if streamServer st = None then []
           else StreamStop # map Unlink (unlinked p [getStreamPortFile p None] (files st)))
        @ [BrowserClose, ServerClose]
        @ map Unlink (unlinked p (artifacts p None)
            (if streamServer st = None then files st
             else files (unlink_existing p [getStreamPortFile p None] st)))
        @ [Exit 0]
      \<and> exited (step p c st Signal) = Some 0)
   \<and> (exited st = None \<and> shuttingDown st \<longrightarrow> step p c st Signal = st)
   \<and> (exited st = None \<and> \<not> shuttingDown st \<and> streamServer st \<noteq> None
        \<and> stream_stop c \<noteq> None \<longrightarrow>
      effects (step p c st Signal) =
        effects st @ [StreamStop, ConsoleError]
        @ map Unlink (unlinked p (artifacts p None) (files st)) @ [Exit 1]
      \<and> exited (step p c st Signal) = Some 1)
   \<and> (exited st = None \<and> \<not> shuttingDown st
        \<and> (streamServer st \<noteq> None \<longrightarrow> stream_stop c = None)
        \<and> fst (browser_close c (browser st)) \<noteq> None \<longrightarrow>
      effects (step p c st Signal) =
        effects st
        @ (if streamServer st = None then []
           else StreamStop # map Unlink (unlinked p [getStreamPortFile p None] (files st)))
        @ [BrowserClose, ConsoleError]
        @ map Unlink (unlinked p (artifacts p None)
            (if streamServer st = None then files st
             else files (unlink_existing p [getStreamPortFile p None] st)))
        @ [Exit 1]
      \<and> exited (step p c st Signal) = Some 1)
   \<and> (exited st = None \<and> timers st \<noteq> 0 \<longrightarrow>
      effects (step p c st Timeout) =
        effects st @ [ServerClose]
        @ map Unlink (unlinked p (artifacts p None) (files st)) @ [Exit 0]
      \<and> exited (step p c st Timeout) = Some 0)
   \<and> (exited st = None \<and> ev \<in> {UncaughtException, UnhandledRejection, ServerError} \<longrightarrow>
      effects (step p c st ev) =
        effects st @ [ConsoleError]
        @ map Unlink (unlinked p (artifacts p None) (files st)) @ [Exit 1]
      \<and> exited (step p c st ev) = Some 1)
   \<and> (exited st \<noteq> None \<longrightarrow> step p c st ev = st)"
proof (intro conjI impI)
  assume a: "exited st = None \<and> \<not> shuttingDown st
      \<and> (streamServer st \<noteq> None \<longrightarrow> stream_stop c = None)
      \<and> fst (browser_close c (browser st)) = None"
  then obtain b where b: "browser_close c (browser st) = (None, b)"
    by (cases "browser_close c (browser st)") simp
  from a have s: "step p c st Signal = shutdown p c st" by (simp add: step_def)
  from a have n: "\<not> shuttingDown st" and ss: "streamServer st \<noteq> None \<longrightarrow> stream_stop c = None"
    by simp_all
  show "effects (step p c st Signal) =
        effects st
        @ (if streamServer st = None then []
           else StreamStop # map Unlink (unlinked p [getStreamPortFile p None] (files st)))
        @ [BrowserClose, ServerClose]
        @ map Unlink (unlinked p (artifacts p None)
            (if streamServer st = None then files st
             else files (unlink_existing p [getStreamPortFile p None] st)))
        @ [Exit 0]"
    unfolding s by (rule shutdown_clean_effects(1)[OF n ss b])
  show "exited (step p c st Signal) = Some 0"
    unfolding s by (rule shutdown_clean_effects(2)[OF n ss b])
next
  assume "exited st = None \<and> shuttingDown st"
  then show "step p c st Signal = st" by (simp add: step_def shutdown_idle)
next
  assume a: "exited st = None \<and> \<not> shuttingDown st \<and> streamServer st \<noteq> None
        \<and> stream_stop c \<noteq> None"
  then obtain e where e: "stream_stop c = Some e" by auto
  from a have s: "step p c st Signal =
      fatal_handler p (emit StreamStop (st\<lparr>shuttingDown := True\<rparr>))"
    using shutdown_stop_rejects[OF _ _ e, of st p] by (simp add: step_def)
  show "effects (step p c st Signal) =
        effects st @ [StreamStop, ConsoleError]
        @ map Unlink (unlinked p (artifacts p None) (files st)) @ [Exit 1]"
    unfolding s by (simp add: fatal_handler_eq emit_def)
  show "exited (step p c st Signal) = Some 1"
    unfolding s by (simp add: fatal_handler_eq)
next
  assume a: "exited st = None \<and> \<not> shuttingDown st
        \<and> (streamServer st \<noteq> None \<longrightarrow> stream_stop c = None)
        \<and> fst (browser_close c (browser st)) \<noteq> None"
  then obtain e b where e: "browser_close c (browser st) = (Some e, b)"
    by (cases "browser_close c (browser st)") auto
  from a have s: "step p c st Signal = shutdown p c st" by (simp add: step_def)
  from a have n: "\<not> shuttingDown st" and ss: "streamServer st \<noteq> None \<longrightarrow> stream_stop c = None"
    by simp_all
  show "effects (step p c st Signal) =
        effects st
        @ (if streamServer st = None then []
           else StreamStop # map Unlink (unlinked p [getStreamPortFile p None] (files st)))
        @ [BrowserClose, ConsoleError]
        @ map Unlink (unlinked p (artifacts p None)
            (if streamServer st = None then files st
             else files (unlink_existing p [getStreamPortFile p None] st)))
        @ [Exit 1]"
    unfolding s by (rule shutdown_rejected_effects(1)[OF n ss e])
  show "exited (step p c st Signal) = Some 1"
    unfolding s by (rule shutdown_rejected_effects(2)[OF n ss e])
next
  assume a: "exited st = None \<and> timers st \<noteq> 0"
  then have s: "step p c st Timeout = close_timer p (st\<lparr>timers := timers st - 1\<rparr>)"
    by (simp add: step_def)
  show "effects (step p c st Timeout) =
        effects st @ [ServerClose]
        @ map Unlink (unlinked p (artifacts p None) (files st)) @ [Exit 0]"
    unfolding s by (simp add: close_timer_eq)
  show "exited (step p c st Timeout) = Some 0"
    unfolding s by (simp add: close_timer_eq)
next
  assume a: "exited st = None \<and> ev \<in> {UncaughtException, UnhandledRejection, ServerError}"
  then have s: "step p c st ev = fatal_handler p st" by (simp add: step_fatal)
  show "effects (step p c st ev) =
        effects st @ [ConsoleError]
        @ map Unlink (unlinked p (artifacts p None) (files st)) @ [Exit 1]"
    unfolding s by (simp add: fatal_handler_eq)
  show "exited (step p c st ev) = Some 1"
    unfolding s by (simp add: fatal_handler_eq)
next
  assume "exited st \<noteq> None"
  then show "step p c st ev = st" by (rule step_exited)
qed

theorem teardown_paths_witness:
  "effects (step sample_platform sample_collab
      ((initial_daemon [js ''/tmp/agent-browser-t1.pid'' \<mapsto> js ''4242'',
                        js ''/tmp/agent-browser-t1.stream'' \<mapsto> js ''9223''] True)
         \<lparr>streamServer := Some 9223\<rparr>) Signal)
     = [StreamStop, Unlink (js ''/tmp/agent-browser-t1.stream''), BrowserClose, ServerClose,
        Unlink (js ''/tmp/agent-browser-t1.pid''), Exit 0]
   \<and> exited (step sample_platform sample_collab
      ((initial_daemon [js ''/tmp/agent-browser-t1.pid'' \<mapsto> js ''4242'',
                        js ''/tmp/agent-browser-t1.stream'' \<mapsto> js ''9223''] True)
         \<lparr>streamServer := Some 9223\<rparr>) Signal) = Some 0
   \<and> effects (step sample_platform sample_collab
      ((initial_daemon [js ''/tmp/agent-browser-t1.pid'' \<mapsto> js ''4242'',
                        js ''/tmp/agent-browser-t1.stream'' \<mapsto> js ''9223''] True)
         \<lparr>streamServer := Some 9223\<rparr>) ServerError)
     = [ConsoleError, Unlink (js ''/tmp/agent-browser-t1.pid''),
        Unlink (js ''/tmp/agent-browser-t1.stream''), Exit 1]
   \<and> step sample_platform sample_collab
      ((initial_daemon [js ''/tmp/agent-browser-t1.pid'' \<mapsto> js ''4242''] True)
         \<lparr>shuttingDown := True, timers := 1\<rparr>) Signal
     = (initial_daemon [js ''/tmp/agent-browser-t1.pid'' \<mapsto> js ''4242''] True)
         \<lparr>shuttingDown := True, timers := 1\<rparr>
   \<and> effects (step sample_platform sample_collab
      ((initial_daemon [js ''/tmp/agent-browser-t1.pid'' \<mapsto> js ''4242''] True)
         \<lparr>shuttingDown := True, timers := 1\<rparr>) Timeout)
     = [ServerClose, Unlink (js ''/tmp/agent-browser-t1.pid''), Exit 0]"
proof -
  let ?pid = "js ''/tmp/agent-browser-t1.pid''"
  let ?stream = "js ''/tmp/agent-browser-t1.stream''"
  let ?st = "(initial_daemon [?pid \<mapsto> js ''4242'', ?stream \<mapsto> js ''9223''] True)
               \<lparr>streamServer := Some 9223\<rparr> :: bool daemon"
  let ?st' = "(initial_daemon [?pid \<mapsto> js ''4242''] True)
               \<lparr>shuttingDown := True, timers := 1\<rparr> :: bool daemon"
  note T = teardown_paths[where st="?st" and c=sample_collab and p=sample_platform and ev=ServerError]
  note T' = teardown_paths[where st="?st'" and c=sample_collab and p=sample_platform]
  have h: "exited ?st = None \<and> \<not> shuttingDown ?st
      \<and> (streamServer ?st \<noteq> None \<longrightarrow> stream_stop sample_collab = None)
      \<and> fst (browser_close sample_collab (browser ?st)) = None"
    by (simp add: initial_daemon_def sample_collab_simps)
  have h': "exited ?st' = None \<and> shuttingDown ?st' \<and> timers ?st' \<noteq> 0"
    by (simp add: initial_daemon_def)
  have s: "streamServer ?st \<noteq> None" by simp
  have u1: "unlinked sample_platform [getStreamPortFile sample_platform None] (files ?st) = [?stream]"
    by (simp add: sample_paths sample_platform_simps initial_daemon_def js_simps)
  have f1: "files (unlink_existing sample_platform [getStreamPortFile sample_platform None] ?st)
          = [?pid \<mapsto> js ''4242'']"
  proof (rule ext)
    fix x
    have "files (unlink_existing sample_platform [getStreamPortFile sample_platform None] ?st) x
        = (if x \<in> set (unlinked sample_platform [getStreamPortFile sample_platform None] (files ?st))
           then None else files ?st x)"
      by (rule unlink_existing_files)
    also have "\<dots> = [?pid \<mapsto> js ''4242''] x"
      unfolding u1 by (simp add: initial_daemon_def js_simps)
    finally show "files (unlink_existing sample_platform [getStreamPortFile sample_platform None] ?st) x
        = [?pid \<mapsto> js ''4242''] x" .
  qed
  have u2: "unlinked sample_platform (artifacts sample_platform None) [?pid \<mapsto> js ''4242''] = [?pid]"
    by (simp add: sample_paths sample_platform_simps js_simps)
  have u3: "unlinked sample_platform (artifacts sample_platform None) (files ?st) = [?pid, ?stream]"
    by (simp add: sample_paths sample_platform_simps initial_daemon_def js_simps)
  have u4: "unlinked sample_platform (artifacts sample_platform None) (files ?st') = [?pid]"
    by (simp add: sample_paths sample_platform_simps initial_daemon_def js_simps)
  have e0: "effects ?st = []" "effects ?st' = []" by (simp_all add: initial_daemon_def)
  from T h have 1: "effects (step sample_platform sample_collab ?st Signal) =
        effects ?st
        @ (if streamServer ?st = None then []
           else StreamStop # map Unlink (unlinked sample_platform [getStreamPortFile sample_platform None] (files ?st)))
        @ [BrowserClose, ServerClose]
        @ map Unlink (unlinked sample_platform (artifacts sample_platform None)
            (if streamServer ?st = None then files ?st
             else files (unlink_existing sample_platform [getStreamPortFile sample_platform None] ?st)))
        @ [Exit 0]"
    and 2: "exited (step sample_platform sample_collab ?st Signal) = Some 0"
    by blast+
  have r1: "effects (step sample_platform sample_collab ?st Signal)
     = [StreamStop, Unlink ?stream, BrowserClose, ServerClose, Unlink ?pid, Exit 0]"
    unfolding 1 if_not_P[OF s] u1 f1 u2 e0 by simp
  from T h have 3: "effects (step sample_platform sample_collab ?st ServerError) =
        effects ?st @ [ConsoleError]
        @ map Unlink (unlinked sample_platform (artifacts sample_platform None) (files ?st)) @ [Exit 1]"
    by blast
  have r3: "effects (step sample_platform sample_collab ?st ServerError)
     = [ConsoleError, Unlink ?pid, Unlink ?stream, Exit 1]"
    unfolding 3 u3 e0 by simp
  from T' h' have 4: "step sample_platform sample_collab ?st' Signal = ?st'"
    and 5: "effects (step sample_platform sample_collab ?st' Timeout) =
        effects ?st' @ [ServerClose]
        @ map Unlink (unlinked sample_platform (artifacts sample_platform None) (files ?st')) @ [Exit 0]"
    by blast+
  have r5: "effects (step sample_platform sample_collab ?st' Timeout)
     = [ServerClose, Unlink ?pid, Exit 0]"
    unfolding 5 u4 e0 by simp
  from r1 2 r3 4 r5 show ?thesis by blast
qed

text \<open>
  Claim C2 as stated fails: an uncaught exception does not go through \<open>shutdown\<close>
  (the stream server is not stopped, the browser and the listener are not closed), and
  neither does the close command (its timer never stops the stream server).
\<close>

theorem teardown_funnel_counterexample:
  "effects (run sample_platform sample_collab
      ((initial_daemon [js ''/tmp/agent-browser-t1.pid'' \<mapsto> js ''4242'',
                        js ''/tmp/agent-browser-t1.stream'' \<mapsto> js ''9223''] True)
         \<lparr>streamServer := Some 9223\<rparr>) [UncaughtException])
     = [ConsoleError, Unlink (js ''/tmp/agent-browser-t1.pid''),
        Unlink (js ''/tmp/agent-browser-t1.stream''), Exit 1]
   \<and> streamServer (run sample_platform sample_collab
      ((initial_daemon [js ''/tmp/agent-browser-t1.pid'' \<mapsto> js ''4242'',
                        js ''/tmp/agent-browser-t1.stream'' \<mapsto> js ''9223''] True)
         \<lparr>streamServer := Some 9223\<rparr>) [UncaughtException]) = Some 9223
   \<and> effects (run sample_platform sample_collab
      ((initial_daemon [js ''/tmp/agent-browser-t1.pid'' \<mapsto> js ''4242'',
                        js ''/tmp/agent-browser-t1.stream'' \<mapsto> js ''9223''] True)
         \<lparr>streamServer := Some 9223\<rparr>) [Data 0 (js ''close'' @ [newline]), Timeout])
     = [Execute \<lparr>cmd_id = js ''2'', action = js ''close'', cmd_args = []\<rparr>,
        SocketWrite 0 (SuccessResponse (js ''2'') []),
        SetTimeout 100,
        ServerClose, Unlink (js ''/tmp/agent-browser-t1.pid''),
        Unlink (js ''/tmp/agent-browser-t1.stream''), Exit 0]"
proof -
  let ?pid = "js ''/tmp/agent-browser-t1.pid''"
  let ?stream = "js ''/tmp/agent-browser-t1.stream''"
  let ?st = "(initial_daemon [?pid \<mapsto> js ''4242'', ?stream \<mapsto> js ''9223''] True)
               \<lparr>streamServer := Some 9223\<rparr> :: bool daemon"
  have u: "unlinked sample_platform (artifacts sample_platform None)
             [?pid \<mapsto> js ''4242'', ?stream \<mapsto> js ''9223''] = [?pid, ?stream]"
    by (simp add: sample_paths sample_platform_simps js_simps)
  have 1: "run sample_platform sample_collab ?st [UncaughtException] = fatal_handler sample_platform ?st"
    by (simp add: run_def step_def initial_daemon_def)
  have d: "on_data sample_platform sample_collab 0 (js ''close'' @ [newline]) ?st
       = ?st\<lparr>browser := False, shuttingDown := True, timers := 1,
              effects := [Execute \<lparr>cmd_id = js ''2'', action = js ''close'', cmd_args = []\<rparr>,
                          SocketWrite 0 (SuccessResponse (js ''2'') []), SetTimeout 100]\<rparr>"
    by (simp add: run_defs drain.simps sample_collab_simps sample_parse_def sample_execute_def
          initial_daemon_def js_simps fun_upd_idem_iff)
  have 2: "run sample_platform sample_collab ?st [Data 0 (js ''close'' @ [newline]), Timeout]
       = close_timer sample_platform
           (?st\<lparr>browser := False, shuttingDown := True, timers := 0,
              effects := [Execute \<lparr>cmd_id = js ''2'', action = js ''close'', cmd_args = []\<rparr>,
                          SocketWrite 0 (SuccessResponse (js ''2'') []), SetTimeout 100]\<rparr>)"
    unfolding run_def foldl.simps
    by (subst step_def, subst step_def) (simp add: d, simp add: initial_daemon_def)
  show ?thesis
    unfolding 1 2 by (simp add: fatal_handler_eq close_timer_eq initial_daemon_def u)
qed

section \<open>The lifecycle invariant\<close>














lemma filter_stream_part:
  "filter P (case x of None \<Rightarrow> [] | Some n \<Rightarrow> if 0 < n then f n else []) =
     (case x of None \<Rightarrow> [] | Some n \<Rightarrow> if 0 < n then filter P (f n) else [])"
  by (simp split: option.splits)


section \<open>Properties of the close command and of the exit status\<close>


lemma on_data_close_line:
  assumes "buffers st conn = []" "newline \<notin> set line" "trim line \<noteq> []"
    "parseCommand c line = ParseSuccess cmd" "action cmd = js ''close''"
    "executeCommand c cmd (browser st) = (Inr resp, b)" "\<not> shuttingDown st"
  shows "on_data p c conn (line @ [newline]) st =
     st\<lparr>browser := b, shuttingDown := True, timers := timers st + 1,
        effects := effects st @ [Execute cmd, SocketWrite conn resp, SetTimeout 100]\<rparr>"
proof -
  have h: "handle_line p c conn line st =
     (True, st\<lparr>browser := b, shuttingDown := True, timers := timers st + 1,
        effects := effects st @ [Execute cmd, SocketWrite conn resp, SetTimeout 100]\<rparr>)"
    using assms by (simp add: handle_line_close)
  have "drain (handle_line p c conn) (line @ newline # []) st =
     ([], st\<lparr>browser := b, shuttingDown := True, timers := timers st + 1,
        effects := effects st @ [Execute cmd, SocketWrite conn resp, SetTimeout 100]\<rparr>)"
    using assms(3) by (simp add: drain_line[OF assms(2)] h)
  then show ?thesis
    using assms(1) by (simp add: on_data_def fun_upd_idem_iff)
qed

text \<open>
  Claim C9.  The process exits with status 0 after a close command that the driver
  answered (when its timer fires) and after a termination signal whose shutdown
  rejects nowhere; it exits with status 1 on a listener error, an uncaught exception
  and an unhandled rejection, after \<open>cleanupSocket\<close>: the unlinks come before the
  exit, and no artifact of the session is left when no unlink is refused.
\<close>

theorem exit_status:
  "(exited st = None \<and> \<not> shuttingDown st \<and> timers st = 0 \<and> buffers st conn = []
      \<and> newline \<notin> set line \<and> trim line \<noteq> []
      \<and> parseCommand c line = ParseSuccess cmd \<and> action cmd = js ''close''
      \<and> executeCommand c cmd (browser st) = (Inr resp, b) \<longrightarrow>
        exited (run p c st [Data conn (line @ [newline]), Timeout]) = Some 0
        \<and> effects (run p c st [Data conn (line @ [newline]), Timeout]) =
            effects st @ [Execute cmd, SocketWrite conn resp, SetTimeout 100, ServerClose]
            @ map Unlink (unlinked p (artifacts p None) (files st)) @ [Exit 0])
   \<and> (exited st = None \<and> \<not> shuttingDown st
        \<and> (streamServer st \<noteq> None \<longrightarrow> stream_stop c = None)
        \<and> fst (browser_close c (browser st)) = None \<longrightarrow>
        exited (run p c st [Signal]) = Some 0
        \<and> last (effects (run p c st [Signal])) = Exit 0)
   \<and> (exited st = None \<and> ev \<in> {ServerError, UncaughtException, UnhandledRejection} \<longrightarrow>
        exited (run p c st [ev]) = Some 1
        \<and> effects (run p c st [ev]) =
            effects st @ [ConsoleError]
            @ map Unlink (unlinked p (artifacts p None) (files st)) @ [Exit 1]
        \<and> ((\<forall>f\<in>set (artifacts p None). \<not> unlink_refused p f) \<longrightarrow>
             (\<forall>f\<in>set (artifacts p None). files (run p c st [ev]) f = None)))"
proof (intro conjI impI)
  assume a: "exited st = None \<and> \<not> shuttingDown st \<and> timers st = 0 \<and> buffers st conn = []
      \<and> newline \<notin> set line \<and> trim line \<noteq> []
      \<and> parseCommand c line = ParseSuccess cmd \<and> action cmd = js ''close''
      \<and> executeCommand c cmd (browser st) = (Inr resp, b)"
  let ?st1 = "st\<lparr>browser := b, shuttingDown := True, timers := timers st + 1,
        effects := effects st @ [Execute cmd, SocketWrite conn resp, SetTimeout 100]\<rparr>"
  from a have d: "on_data p c conn (line @ [newline]) st = ?st1"
    by (intro on_data_close_line) simp_all
  from a have r: "run p c st [Data conn (line @ [newline]), Timeout] =
      close_timer p (?st1\<lparr>timers := timers ?st1 - 1\<rparr>)"
    unfolding run_def foldl.simps
    by (subst step_def, subst step_def) (simp add: d)
  show "exited (run p c st [Data conn (line @ [newline]), Timeout]) = Some 0"
    unfolding r by (simp add: close_timer_eq)
  show "effects (run p c st [Data conn (line @ [newline]), Timeout]) =
            effects st @ [Execute cmd, SocketWrite conn resp, SetTimeout 100, ServerClose]
            @ map Unlink (unlinked p (artifacts p None) (files st)) @ [Exit 0]"
    unfolding r by (simp add: close_timer_eq)
next
  assume a: "exited st = None \<and> \<not> shuttingDown st
        \<and> (streamServer st \<noteq> None \<longrightarrow> stream_stop c = None)
        \<and> fst (browser_close c (browser st)) = None"
  then obtain b where b: "browser_close c (browser st) = (None, b)"
    by (cases "browser_close c (browser st)") simp
  from a have n: "\<not> shuttingDown st" and ss: "streamServer st \<noteq> None \<longrightarrow> stream_stop c = None"
    by simp_all
  from a have r: "run p c st [Signal] = shutdown p c st" by (simp add: run_def step_def)
  show "exited (run p c st [Signal]) = Some 0"
    unfolding r by (rule shutdown_clean_effects(2)[OF n ss b])
  show "last (effects (run p c st [Signal])) = Exit 0"
    unfolding r shutdown_clean_effects(1)[OF n ss b] by simp
next
  assume a: "exited st = None \<and> ev \<in> {ServerError, UncaughtException, UnhandledRejection}"
  then have r: "run p c st [ev] = fatal_handler p st"
    by (auto simp add: run_def step_def)
  show "exited (run p c st [ev]) = Some 1"
    unfolding r by (simp add: fatal_handler_eq)
  show "effects (run p c st [ev]) =
            effects st @ [ConsoleError]
            @ map Unlink (unlinked p (artifacts p None) (files st)) @ [Exit 1]"
    unfolding r by (simp add: fatal_handler_eq)
  assume nr: "\<forall>f\<in>set (artifacts p None). \<not> unlink_refused p f"
  have f: "files (fatal_handler p st) = files (cleanupSocket p None st)"
    by (simp add: fatal_handler_eq cleanupSocket_eq)
  show "\<forall>f\<in>set (artifacts p None). files (run p c st [ev]) f = None"
    unfolding r f by (simp add: cleanupSocket_cleared[OF nr])
qed

lemma sample_close:
  "parseCommand sample_collab (js ''close'') =
     ParseSuccess \<lparr>cmd_id = js ''2'', action = js ''close'', cmd_args = []\<rparr>"
  "executeCommand sample_collab \<lparr>cmd_id = js ''2'', action = js ''close'', cmd_args = []\<rparr> b
     = (Inr (SuccessResponse (js ''2'') []), False)"
  "newline \<notin> set (js ''close'')" "trim (js ''close'') \<noteq> []"
  by (simp_all add: sample_collab_simps sample_parse_def sample_execute_def js_simps newline_def
        trim_def is_js_whitespace_def)

lemma sample_started:
  "startDaemon sample_platform sample_collab None Map.empty True =
     (None,
      \<lparr>files = [js ''/tmp/agent-browser-t1.pid'' \<mapsto> js ''4242''], browser = True,
       shuttingDown = False, streamServer = None, buffers = (\<lambda>conn. []), timers = 0,
       exited = None,
       effects = [CreateServer,
                  WriteFile (js ''/tmp/agent-browser-t1.pid'') (js ''4242''),
                  Listen (UnixSocket (js ''/tmp/agent-browser-t1.sock''))]\<rparr>)"
  by (simp add: startDaemon_def cleanupSocket_eq initial_daemon_def writeFileSync_def emit_def
        resolve_streamPort_def sample_paths sample_platform_simps digits_samples Let_def)



theorem exit_status_witness:
  "exited (run sample_platform sample_collab
      (snd (startDaemon sample_platform sample_collab None Map.empty True))
      [Data 0 (js ''close'' @ [newline]), Timeout]) = Some 0
   \<and> exited (run sample_platform sample_collab
      (snd (startDaemon sample_platform sample_collab None Map.empty True)) [Signal]) = Some 0
   \<and> exited (run sample_platform sample_collab
      (snd (startDaemon sample_platform sample_collab None Map.empty True)) [ServerError]) = Some 1
   \<and> effects (run sample_platform sample_collab
      (snd (startDaemon sample_platform sample_collab None Map.empty True)) [ServerError])
     = [CreateServer,
        WriteFile (js ''/tmp/agent-browser-t1.pid'') (js ''4242''),
        Listen (UnixSocket (js ''/tmp/agent-browser-t1.sock'')),
        ConsoleError, Unlink (js ''/tmp/agent-browser-t1.pid''), Exit 1]
   \<and> files (run sample_platform sample_collab
      (snd (startDaemon sample_platform sample_collab None Map.empty True)) [ServerError])
        (js ''/tmp/agent-browser-t1.pid'') = None"
proof -
  let ?close = "\<lparr>cmd_id = js ''2'', action = js ''close'', cmd_args = []\<rparr>"
  let ?st = "snd (startDaemon sample_platform sample_collab None Map.empty True)"
  note T = exit_status[where st="?st" and conn=0 and line="js ''close''" and c=sample_collab
      and cmd="?close" and resp="SuccessResponse (js ''2'') []" and b=False and p=sample_platform
      and ev=ServerError]
  have h1: "exited ?st = None \<and> \<not> shuttingDown ?st \<and> timers ?st = 0 \<and> buffers ?st 0 = []
      \<and> newline \<notin> set (js ''close'') \<and> trim (js ''close'') \<noteq> []
      \<and> parseCommand sample_collab (js ''close'') = ParseSuccess ?close
      \<and> action ?close = js ''close''
      \<and> executeCommand sample_collab ?close (browser ?st) = (Inr (SuccessResponse (js ''2'') []), False)"
    by (simp add: sample_started sample_close)
  have h2: "exited ?st = None \<and> \<not> shuttingDown ?st
        \<and> (streamServer ?st \<noteq> None \<longrightarrow> stream_stop sample_collab = None)
        \<and> fst (browser_close sample_collab (browser ?st)) = None"
    by (simp add: sample_started sample_collab_simps)
  have h3: "exited ?st = None \<and> ServerError \<in> {ServerError, UncaughtException, UnhandledRejection}"
    by (simp add: sample_started)
  have nr: "\<forall>f\<in>set (artifacts sample_platform None). \<not> unlink_refused sample_platform f"
    by (simp add: sample_platform_simps)
  have u: "unlinked sample_platform (artifacts sample_platform None) (files ?st)
         = [js ''/tmp/agent-browser-t1.pid'']"
    by (simp add: sample_started sample_paths sample_platform_simps js_simps)
  have pa: "js ''/tmp/agent-browser-t1.pid'' \<in> set (artifacts sample_platform None)"
    by (simp add: sample_paths)
  from T h1 have 1: "exited (run sample_platform sample_collab ?st
      [Data 0 (js ''close'' @ [newline]), Timeout]) = Some 0"
    by blast
  from T h2 have 2: "exited (run sample_platform sample_collab ?st [Signal]) = Some 0"
    by blast
  from T h3 have 3: "exited (run sample_platform sample_collab ?st [ServerError]) = Some 1"
    and 4: "effects (run sample_platform sample_collab ?st [ServerError]) =
            effects ?st @ [ConsoleError]
            @ map Unlink (unlinked sample_platform (artifacts sample_platform None) (files ?st))
            @ [Exit 1]"
    and 5: "(\<forall>f\<in>set (artifacts sample_platform None). \<not> unlink_refused sample_platform f) \<longrightarrow>
           (\<forall>f\<in>set (artifacts sample_platform None).
               files (run sample_platform sample_collab ?st [ServerError]) f = None)"
    by blast+
  have r4: "effects (run sample_platform sample_collab ?st [ServerError])
     = [CreateServer,
        WriteFile (js ''/tmp/agent-browser-t1.pid'') (js ''4242''),
        Listen (UnixSocket (js ''/tmp/agent-browser-t1.sock'')),
        ConsoleError, Unlink (js ''/tmp/agent-browser-t1.pid''), Exit 1]"
    unfolding 4 u by (simp add: sample_started)
  from 5 nr pa have r5: "files (run sample_platform sample_collab ?st [ServerError])
        (js ''/tmp/agent-browser-t1.pid'') = None"
    by blast
  from 1 2 3 r4 r5 show ?thesis by blast
qed

section \<open>Properties of interleaved handler invocations\<close>

subsection \<open>Lines\<close>






subsection \<open>The loop\<close>



subsection \<open>One line, up to its first await\<close>


lemma start_line_buffers: "buffers (proc (snd (start_line p c k l s))) = buffers (proc s)"
  by (auto simp add: start_line_def dispatch_command_def socket_write_def emit_def Let_def
        split: parse_result.splits)



subsection \<open>The loop of one invocation\<close>







subsection \<open>The invariant of a connection\<close>





subsection \<open>Settling what an invocation awaits\<close>











subsection \<open>Events of other connections\<close>







subsection \<open>Every event keeps the invariant\<close>






subsection \<open>Chunk boundaries\<close>

lemma utf8_decode_ascii:
  "\<forall>b\<in>set data. unat b \<le> 127 \<Longrightarrow> utf8_decode 0 0 128 191 data = map unat data"
  by (induction data) (simp_all add: utf8_lead_def)

lemma toString_utf8_ascii:
  "\<forall>b\<in>set data. unat b \<le> 127 \<Longrightarrow> toString_utf8 data = map (\<lambda>b. of_nat (unat b)) data"
proof -
  assume a: "\<forall>b\<in>set data. unat b \<le> 127"
  have "concat (map utf16_units (map unat data)) = map (\<lambda>b. of_nat (unat b)) data"
    using a by (induction data) (simp_all add: utf16_units_def)
  then show ?thesis by (simp add: toString_utf8_def utf8_decode_ascii[OF a])
qed

lemma toString_utf8_ascii_chunks:
  assumes "\<forall>b\<in>set (concat chunks). unat b \<le> 127"
  shows "concat (map toString_utf8 chunks) = toString_utf8 (concat chunks)"
proof -
  have "\<And>ch. ch \<in> set chunks \<Longrightarrow> toString_utf8 ch = map (\<lambda>b. of_nat (unat b)) ch"
  proof -
    fix ch assume "ch \<in> set chunks"
    then have "\<forall>b\<in>set ch. unat b \<le> 127" using assms by auto
    then show "toString_utf8 ch = map (\<lambda>b. of_nat (unat b)) ch" by (rule toString_utf8_ascii)
  qed
  then have "concat (map toString_utf8 chunks) = concat (map (map (\<lambda>b. of_nat (unat b))) chunks)"
    by (induction chunks) simp_all
  also have "\<dots> = map (\<lambda>b. of_nat (unat b)) (concat chunks)"
    by (simp add: map_concat)
  also have "\<dots> = toString_utf8 (concat chunks)"
    by (rule toString_utf8_ascii[OF assms, symmetric])
  finally show ?thesis .
qed






end
